theory Spec2Isabelle
  imports Complex_Main "HOL-Library.Signed_Division"
begin

section \<open>The audio stream of the ffmpeg MultiSrc plugin (audiostream.cpp)\<close>

subsection \<open>Numbers\<close>

text \<open>
  \<open>qreal\<close> is a C++ double. The special values of IEEE 754 are modelled as they
  behave (a NaN propagates and compares false, the infinities absorb); a finite double is
  a real number and finite arithmetic is exact: rounding, overflow to infinity and the
  sign of zero are not modelled.
\<close>

datatype qreal = NaN | Fin real | PInf | MInf

definition qIsNaN :: "qreal \<Rightarrow> bool" where
  "qIsNaN x = (x = NaN)"

fun qneg :: "qreal \<Rightarrow> qreal" where
  "qneg NaN = NaN"
| "qneg (Fin x) = Fin (- x)"
| "qneg PInf = MInf"
| "qneg MInf = PInf"

fun qadd :: "qreal \<Rightarrow> qreal \<Rightarrow> qreal" where
  "qadd NaN y = NaN"
| "qadd x NaN = NaN"
| "qadd (Fin x) (Fin y) = Fin (x + y)"
| "qadd PInf MInf = NaN"
| "qadd MInf PInf = NaN"
| "qadd PInf y = PInf"
| "qadd x PInf = PInf"
| "qadd MInf y = MInf"
| "qadd x MInf = MInf"

definition qsub :: "qreal \<Rightarrow> qreal \<Rightarrow> qreal" where
  "qsub x y = qadd x (qneg y)"

fun qsign :: "qreal \<Rightarrow> int" where
  "qsign NaN = 0"
| "qsign (Fin x) = (if x < 0 then - 1 else if x = 0 then 0 else 1)"
| "qsign PInf = 1"
| "qsign MInf = - 1"

fun qmul :: "qreal \<Rightarrow> qreal \<Rightarrow> qreal" where
  "qmul NaN y = NaN"
| "qmul x NaN = NaN"
| "qmul (Fin x) (Fin y) = Fin (x * y)"
| "qmul x y =
     (if qsign x * qsign y = 0 then NaN else if 0 < qsign x * qsign y then PInf else MInf)"

text \<open>Division; every divisor of this file is a converted \<open>int\<close>, so a zero divisor is \<open>+0.0\<close>.\<close>

fun qdiv :: "qreal \<Rightarrow> qreal \<Rightarrow> qreal" where
  "qdiv NaN y = NaN"
| "qdiv x NaN = NaN"
| "qdiv (Fin x) (Fin y) =
     (if y \<noteq> 0 then Fin (x / y) else if x = 0 then NaN else if 0 < x then PInf else MInf)"
| "qdiv (Fin x) y = Fin 0"
| "qdiv x (Fin y) = (if 0 \<le> qsign x * qsign (Fin y) then x else qneg x)"
| "qdiv x y = NaN"

fun qAbs :: "qreal \<Rightarrow> qreal" where
  "qAbs NaN = NaN"
| "qAbs (Fin x) = Fin \<bar>x\<bar>"
| "qAbs PInf = PInf"
| "qAbs MInf = PInf"

text \<open>The comparisons \<open><\<close> and \<open>>=\<close> of doubles: both are false when an operand is NaN.\<close>

fun qlt :: "qreal \<Rightarrow> qreal \<Rightarrow> bool" where
  "qlt NaN y = False"
| "qlt x NaN = False"
| "qlt (Fin x) (Fin y) = (x < y)"
| "qlt x MInf = False"
| "qlt PInf y = False"
| "qlt x y = True"

definition qge :: "qreal \<Rightarrow> qreal \<Rightarrow> bool" where
  "qge x y = (x \<noteq> NaN \<and> y \<noteq> NaN \<and> \<not> qlt x y)"

definition qreal_of_int :: "int \<Rightarrow> qreal" where
  "qreal_of_int i = Fin (of_int i)"

text \<open>
  \<open>int\<close> is 32 bits and \<open>int64_t\<close> 64 bits, two's complement. They are values of type
  \<open>int\<close> here, and an operation that can leave the range wraps around.
\<close>

definition int32 :: "int \<Rightarrow> int" where
  "int32 i = signed_take_bit 31 i"

definition int64 :: "int \<Rightarrow> int" where
  "int64 i = signed_take_bit 63 i"

definition INT_MIN :: int where
  "INT_MIN = - (2 ^ 31)"

definition INT_MAX :: int where
  "INT_MAX = 2 ^ 31 - 1"

text \<open>
  \<open>int(x)\<close> for a double \<open>x\<close>: truncation towards zero. Where the truncated value is
  no \<open>int\<close> (or \<open>x\<close> is no number) the conversion gives \<open>INT_MIN\<close>, as the x86
  conversion instruction does.
\<close>

definition truncate_real :: "real \<Rightarrow> int" where
  "truncate_real x = (if 0 \<le> x then \<lfloor>x\<rfloor> else \<lceil>x\<rceil>)"

fun double_to_int :: "qreal \<Rightarrow> int" where
  "double_to_int (Fin x) =
     (if INT_MIN \<le> truncate_real x \<and> truncate_real x \<le> INT_MAX then truncate_real x
      else INT_MIN)"
| "double_to_int x = INT_MIN"

definition qBound :: "int \<Rightarrow> int \<Rightarrow> int \<Rightarrow> int" where
  "qBound mn val mx = max mn (min mx val)"

subsection \<open>Constants and lookup tables\<close>

definition AV_NOSYNC_THRESHOLD :: qreal where
  "AV_NOSYNC_THRESHOLD = Fin 10"

definition SAMPLE_CORRECTION_PERCENT_MAX :: int where
  "SAMPLE_CORRECTION_PERCENT_MAX = 10"

definition AUDIO_DIFF_AVG_NB :: int where
  "AUDIO_DIFF_AVG_NB = 20"

text \<open>
  The sample formats of libavutil: the four this file names, and every other value of
  the enumeration (or of the \<open>int\<close> cast to it).
\<close>

datatype AVSampleFormat =
    AV_SAMPLE_FMT_U8
  | AV_SAMPLE_FMT_S16
  | AV_SAMPLE_FMT_S32
  | AV_SAMPLE_FMT_FLT
  | AV_SAMPLE_FMT_OTHER int

text \<open>The enumerations of \<open>AkAudioCaps\<close>: the values this file names, and every other one.\<close>

datatype SampleFormat =
    SampleFormat_u8
  | SampleFormat_s16
  | SampleFormat_s32
  | SampleFormat_flt
  | SampleFormat_other int

datatype ChannelLayout =
    Layout_mono
  | Layout_stereo
  | Layout_other int

text \<open>A channel layout of libavutil is a \<open>uint64_t\<close> mask of speaker positions.\<close>

definition AV_CH_LAYOUT_MONO :: nat where
  "AV_CH_LAYOUT_MONO = 4"

definition AV_CH_LAYOUT_STEREO :: nat where
  "AV_CH_LAYOUT_STEREO = 3"

definition AV_NOPTS_VALUE :: int where
  "AV_NOPTS_VALUE = - (2 ^ 63)"

text \<open>A \<open>QMap\<close> is the list of its (key, value) pairs; the keys of a map are distinct.\<close>

definition sampleFormats :: "(AVSampleFormat \<times> SampleFormat) list" where
  "sampleFormats =
     [(AV_SAMPLE_FMT_U8, SampleFormat_u8),
      (AV_SAMPLE_FMT_S16, SampleFormat_s16),
      (AV_SAMPLE_FMT_S32, SampleFormat_s32),
      (AV_SAMPLE_FMT_FLT, SampleFormat_flt)]"

definition channelLayouts :: "(nat \<times> ChannelLayout) list" where
  "channelLayouts =
     [(AV_CH_LAYOUT_STEREO, Layout_stereo),
      (AV_CH_LAYOUT_MONO, Layout_mono)]"

definition QMap_contains :: "('k \<times> 'v) list \<Rightarrow> 'k \<Rightarrow> bool" where
  "QMap_contains m k = (case map_of m k of None \<Rightarrow> False | Some v \<Rightarrow> True)"

text \<open>\<open>value(key, defaultValue)\<close>; \<open>value(key)\<close> passes a default-constructed value.\<close>

definition QMap_value :: "('k \<times> 'v) list \<Rightarrow> 'k \<Rightarrow> 'v \<Rightarrow> 'v" where
  "QMap_value m k d = (case map_of m k of None \<Rightarrow> d | Some v \<Rightarrow> v)"

text \<open>\<open>key(value, defaultKey)\<close>: the first key with that value.\<close>

definition QMap_key :: "('k \<times> 'v) list \<Rightarrow> 'v \<Rightarrow> 'k \<Rightarrow> 'k" where
  "QMap_key m v d = (case find (\<lambda>kv. snd kv = v) m of None \<Rightarrow> d | Some kv \<Rightarrow> fst kv)"

subsection \<open>Data\<close>

type_synonym AkFrac = "int \<times> int"

type_synonym QByteArray = "nat list"

text \<open>The state of a resampler of libswresample is opaque; \<open>None\<close> is the null pointer.\<close>

type_synonym SwrContext = nat

record AVFrame =
  pts :: int
  nb_samples :: int
  sample_rate :: int
  channel_layout :: nat
  channels :: int
  format :: AVSampleFormat
  data :: QByteArray

record AVCodecContext =
  sample_fmt :: AVSampleFormat
  ctx_channel_layout :: nat
  ctx_sample_rate :: int

record AkAudioCaps =
  isValid :: bool
  caps_format :: SampleFormat
  bps :: int
  caps_channels :: int
  rate :: int
  layout :: ChannelLayout
  samples :: int
  align :: bool

record AkAudioPacket =
  packet_caps :: AkAudioCaps
  buffer :: QByteArray
  packet_pts :: int
  packet_timeBase :: AkFrac
  packet_index :: int
  packet_id :: int

text \<open>An \<open>AkPacket\<close> is the empty packet \<open>AkPacket()\<close> or carries an audio packet.\<close>

datatype AkPacket = AkPacket_empty | AkPacket_audio AkAudioPacket

text \<open>
  The members of \<open>AudioStream\<close> and the members of \<open>AbstractStream\<close> it reads.
  \<open>globalClock\<close> is the reading of the shared clock: other streams move it between two
  frames of this one.
\<close>

record AudioStream =
  m_maxData :: int
  m_pts :: int
  m_resampleContext :: "SwrContext option"
  audioDiffCum :: qreal
  audioDiffAvgCoef :: qreal
  audioDiffAvgCount :: int
  m_clockDiff :: qreal
  timeBase :: AkFrac
  stream_index :: nat
  stream_id :: int
  codecContext :: AVCodecContext
  globalClock :: qreal

text \<open>
  The functions of libavutil, libavcodec, libswresample and of the Ak classes that this
  file calls: their results are parameters. A function that writes through a pointer
  (to the resampler, to the output frame, to the output buffer) also returns the new value.
\<close>

record libs =
  AkFrac_value :: "AkFrac \<Rightarrow> qreal"
  AkAudioCaps_new :: AkAudioCaps
  SampleFormat_new :: SampleFormat
  ChannelLayout_new :: ChannelLayout
  av_get_packed_sample_fmt :: "AVSampleFormat \<Rightarrow> AVSampleFormat"
  av_get_bytes_per_sample :: "AVSampleFormat \<Rightarrow> int"
  av_get_channel_layout_nb_channels :: "nat \<Rightarrow> int"
  swr_set_compensation :: "SwrContext option \<Rightarrow> int \<Rightarrow> int \<Rightarrow> int \<times> SwrContext option"
  swr_alloc_set_opts ::
    "SwrContext option \<Rightarrow> nat \<Rightarrow> AVSampleFormat \<Rightarrow> int \<Rightarrow> nat \<Rightarrow> AVSampleFormat \<Rightarrow> int
      \<Rightarrow> SwrContext option"
  av_samples_get_buffer_size :: "int \<Rightarrow> int \<Rightarrow> AVSampleFormat \<Rightarrow> int"
  avcodec_fill_audio_frame :: "AVFrame \<Rightarrow> int \<Rightarrow> AVSampleFormat \<Rightarrow> int \<Rightarrow> int \<times> AVFrame"
  swr_convert_frame ::
    "SwrContext \<Rightarrow> AVFrame \<Rightarrow> AVFrame \<Rightarrow> int \<times> SwrContext \<times> AVFrame \<times> QByteArray"

text \<open>What a call does outside the stream: calls of the resampler and of the clock, signals.\<close>

datatype event =
    SetCompensation int int
  | SetClock qreal
  | AllocSetOpts nat AVSampleFormat int nat AVSampleFormat int
  | ConvertFrame
  | DebugError int
  | OStream AkPacket
  | FrameSent

subsection \<open>AudioStream::AudioStream\<close>

text \<open>
  The constructor; its arguments are the members that \<open>AbstractStream\<close> initialises.
\<close>

definition AudioStream_new ::
  "AVCodecContext \<Rightarrow> AkFrac \<Rightarrow> nat \<Rightarrow> int \<Rightarrow> qreal \<Rightarrow> qreal \<Rightarrow> AudioStream" where
  "AudioStream_new cc tb idx sid clk cd =
     \<lparr>m_maxData = 9,
      m_pts = 0,
      m_resampleContext = None,
      audioDiffCum = Fin 0,
      audioDiffAvgCoef = Fin (exp (ln (1 / 100) / real_of_int AUDIO_DIFF_AVG_NB)),
      audioDiffAvgCount = 0,
      m_clockDiff = cd,
      timeBase = tb,
      stream_index = idx,
      stream_id = sid,
      codecContext = cc,
      globalClock = clk\<rparr>"

subsection \<open>AudioStream::caps\<close>

definition AudioStream_caps :: "libs \<Rightarrow> AudioStream \<Rightarrow> AkAudioCaps" where
  "AudioStream_caps ext s =
     (let iFormat = sample_fmt (codecContext s);
          oFormat = av_get_packed_sample_fmt ext iFormat;
          oFormat = (if QMap_contains sampleFormats oFormat then oFormat else AV_SAMPLE_FMT_FLT);
          layout = QMap_value channelLayouts (ctx_channel_layout (codecContext s)) Layout_stereo;
          channelLayout = QMap_key channelLayouts layout AV_CH_LAYOUT_STEREO
      in (AkAudioCaps_new ext)
           \<lparr>isValid := True,
            caps_format := QMap_value sampleFormats oFormat (SampleFormat_new ext),
            bps := int32 (8 * av_get_bytes_per_sample ext oFormat),
            caps_channels := av_get_channel_layout_nb_channels ext channelLayout,
            rate := ctx_sample_rate (codecContext s),
            layout := layout,
            align := False\<rparr>)"

subsection \<open>AudioStream::convert\<close>

text \<open>Lines 143 and 144: the frame's time in seconds and its distance to the clock.\<close>

definition convert_pts :: "libs \<Rightarrow> AudioStream \<Rightarrow> AVFrame \<Rightarrow> qreal" where
  "convert_pts ext s iFrame = qmul (qreal_of_int (pts iFrame)) (AkFrac_value ext (timeBase s))"

definition convert_diff :: "libs \<Rightarrow> AudioStream \<Rightarrow> AVFrame \<Rightarrow> qreal" where
  "convert_diff ext s iFrame = qsub (convert_pts ext s iFrame) (globalClock s)"

text \<open>
  Lines 156 to 162: is the averaged difference at least the threshold? The stream is the
  one whose \<open>audioDiffCum\<close> line 149 has updated.
\<close>

definition convert_over_threshold :: "AudioStream \<Rightarrow> AVFrame \<Rightarrow> bool" where
  "convert_over_threshold s iFrame =
     (let avgDiff = qmul (audioDiffCum s) (qsub (Fin 1) (audioDiffAvgCoef s));
          diffThreshold =
            qdiv (qmul (Fin 2) (qreal_of_int (nb_samples iFrame)))
                 (qreal_of_int (sample_rate iFrame))
      in qge (qAbs avgDiff) diffThreshold)"

text \<open>Lines 163 to 166: the corrected number of samples, at most 10 percent away.\<close>

definition convert_correction :: "qreal \<Rightarrow> AVFrame \<Rightarrow> int" where
  "convert_correction diff iFrame =
     (let wantedSamples =
            int32 (nb_samples iFrame
                   + double_to_int (qmul diff (qreal_of_int (sample_rate iFrame))));
          minSamples =
            int32 (nb_samples iFrame * (100 - SAMPLE_CORRECTION_PERCENT_MAX)) sdiv 100;
          maxSamples =
            int32 (nb_samples iFrame * (100 + SAMPLE_CORRECTION_PERCENT_MAX)) sdiv 100
      in qBound minSamples wantedSamples maxSamples)"

text \<open>
  Lines 145 to 182, the block "Synchronize audio". The result is the stream, the calls
  made, the local \<open>wantedSamples\<close>, and whether the function goes on: it is \<open>False\<close>
  at the \<open>return AkPacket()\<close> of line 172.
\<close>

definition convert_sync ::
  "libs \<Rightarrow> AudioStream \<Rightarrow> AVFrame \<Rightarrow> AudioStream \<times> event list \<times> int \<times> bool" where
  "convert_sync ext s iFrame =
     (let diff = convert_diff ext s iFrame;
          wantedSamples = nb_samples iFrame
      in
      if \<not> qIsNaN diff \<and> qlt (qAbs diff) AV_NOSYNC_THRESHOLD then
        (let s = s\<lparr>audioDiffCum := qadd diff (qmul (audioDiffAvgCoef s) (audioDiffCum s))\<rparr>
         in
         if audioDiffAvgCount s < AUDIO_DIFF_AVG_NB then
           (s\<lparr>audioDiffAvgCount := audioDiffAvgCount s + 1\<rparr>, [], wantedSamples, True)
         else if convert_over_threshold s iFrame then
           (let wantedSamples = convert_correction diff iFrame
            in
            if wantedSamples \<noteq> nb_samples iFrame then
              (case swr_set_compensation ext (m_resampleContext s)
                      (int32 (wantedSamples - nb_samples iFrame)) wantedSamples of
                 (rc, ctx) \<Rightarrow>
                   (s\<lparr>m_resampleContext := ctx\<rparr>,
                    [SetCompensation (int32 (wantedSamples - nb_samples iFrame)) wantedSamples],
                    wantedSamples,
                    \<not> rc < 0))
            else (s, [], wantedSamples, True))
         else (s, [], wantedSamples, True))
      else
        (s\<lparr>audioDiffAvgCount := 0, audioDiffCum := Fin 0\<rparr>, [], wantedSamples, True))"

text \<open>Lines 184 to 187: the hard reset of the clock, and the recorded difference.\<close>

definition convert_clock :: "AudioStream \<Rightarrow> qreal \<Rightarrow> qreal \<Rightarrow> AudioStream \<times> event list" where
  "convert_clock s pts' diff =
     (case (if qge (qAbs diff) AV_NOSYNC_THRESHOLD
            then (s\<lparr>globalClock := pts'\<rparr>, [SetClock pts'])
            else (s, [])) of
        (s, evs) \<Rightarrow> (s\<lparr>m_clockDiff := diff\<rparr>, evs))"

text \<open>Lines 189 to 196: the layout and the format of the output.\<close>

definition convert_oLayout :: "AVFrame \<Rightarrow> nat" where
  "convert_oLayout iFrame =
     (if QMap_contains channelLayouts (channel_layout iFrame) then channel_layout iFrame
      else AV_CH_LAYOUT_STEREO)"

definition convert_oFormat :: "libs \<Rightarrow> AVFrame \<Rightarrow> AVSampleFormat" where
  "convert_oFormat ext iFrame =
     (let iFormat = format iFrame;
          oFormat = av_get_packed_sample_fmt ext iFormat
      in if QMap_contains sampleFormats oFormat then oFormat else AV_SAMPLE_FMT_FLT)"

text \<open>Lines 212 to 219: the frame that receives the converted samples.\<close>

definition convert_oFrame :: "libs \<Rightarrow> AVFrame \<Rightarrow> int \<Rightarrow> AVFrame" where
  "convert_oFrame ext iFrame wantedSamples =
     \<lparr>pts = pts iFrame,
      nb_samples = wantedSamples,
      sample_rate = sample_rate iFrame,
      channel_layout = convert_oLayout iFrame,
      channels = av_get_channel_layout_nb_channels ext (convert_oLayout iFrame),
      format = convert_oFormat ext iFrame,
      data = []\<rparr>"

text \<open>Lines 198 to 267: the resampler is set up, the frame converted, the packet built.\<close>

definition convert_resample ::
  "libs \<Rightarrow> AudioStream \<Rightarrow> AVFrame \<Rightarrow> int \<Rightarrow> AudioStream \<times> event list \<times> AkPacket" where
  "convert_resample ext s iFrame wantedSamples =
     (let oSampleRate = sample_rate iFrame;
          oLayout = convert_oLayout iFrame;
          oChannels = av_get_channel_layout_nb_channels ext oLayout;
          iFormat = format iFrame;
          oFormat = convert_oFormat ext iFrame;
          ctx = swr_alloc_set_opts ext (m_resampleContext s) oLayout oFormat oSampleRate
                  (channel_layout iFrame) iFormat (sample_rate iFrame);
          s = s\<lparr>m_resampleContext := ctx\<rparr>;
          opts = AllocSetOpts oLayout oFormat oSampleRate
                   (channel_layout iFrame) iFormat (sample_rate iFrame)
      in
      case ctx of
        None \<Rightarrow> (s, [opts], AkPacket_empty)
      | Some c \<Rightarrow>
          (let oFrame = convert_oFrame ext iFrame wantedSamples;
               frameSize = av_samples_get_buffer_size ext oChannels wantedSamples oFormat
           in
           case avcodec_fill_audio_frame ext oFrame oChannels oFormat frameSize of
             (filled, oFrame) \<Rightarrow>
               if filled < 0 then (s, [opts], AkPacket_empty)
               else
                 (case swr_convert_frame ext c oFrame iFrame of
                    (error, c, oFrame, oBuffer) \<Rightarrow>
                      (let s = s\<lparr>m_resampleContext := Some c\<rparr>
                       in
                       if error < 0 then
                         (s, [opts, ConvertFrame, DebugError error], AkPacket_empty)
                       else
                         (s, [opts, ConvertFrame],
                          AkPacket_audio
                            \<lparr>packet_caps =
                               \<lparr>isValid = True,
                                caps_format = QMap_value sampleFormats oFormat (SampleFormat_new ext),
                                bps = int32 (8 * av_get_bytes_per_sample ext oFormat),
                                caps_channels = oChannels,
                                rate = sample_rate iFrame,
                                layout = QMap_value channelLayouts oLayout (ChannelLayout_new ext),
                                samples = nb_samples oFrame,
                                align = False\<rparr>,
                             buffer = oBuffer,
                             packet_pts = pts iFrame,
                             packet_timeBase = timeBase s,
                             packet_index = int32 (int (stream_index s)),
                             packet_id = stream_id s\<rparr>)))))"

definition convert :: "libs \<Rightarrow> AudioStream \<Rightarrow> AVFrame \<Rightarrow> AudioStream \<times> event list \<times> AkPacket" where
  "convert ext s iFrame =
     (case convert_sync ext s iFrame of
        (s1, evs1, wantedSamples, proceed) \<Rightarrow>
          if \<not> proceed then (s1, evs1, AkPacket_empty)
          else
            (case convert_clock s1 (convert_pts ext s iFrame) (convert_diff ext s iFrame) of
               (s2, evs2) \<Rightarrow>
                 (case convert_resample ext s2 iFrame wantedSamples of
                    (s3, evs3, oPacket) \<Rightarrow> (s3, evs1 @ evs2 @ evs3, oPacket))))"

subsection \<open>AudioStream::processData\<close>

text \<open>Line 132: a frame without a time stamp takes the one the stream expects next.\<close>

definition processData_pts :: "AudioStream \<Rightarrow> AVFrame \<Rightarrow> AVFrame" where
  "processData_pts s frame =
     frame\<lparr>pts := (if pts frame \<noteq> AV_NOPTS_VALUE then pts frame else m_pts s)\<rparr>"

definition processData :: "libs \<Rightarrow> AudioStream \<Rightarrow> AVFrame \<Rightarrow> AudioStream \<times> event list" where
  "processData ext s frame =
     (let frame = processData_pts s frame
      in
      case convert ext s frame of
        (s, evs, oPacket) \<Rightarrow>
          (s\<lparr>m_pts := int64 (pts frame + nb_samples frame)\<rparr>,
           evs @ [OStream oPacket, FrameSent]))"

subsection \<open>What a call shows\<close>

text \<open>
  The requests for compensation, the writes of the clock, the local \<open>wantedSamples\<close>
  and the caps of a packet.
\<close>

fun compensations :: "event list \<Rightarrow> (int \<times> int) list" where
  "compensations [] = []"
| "compensations (SetCompensation d n # es) = (d, n) # compensations es"
| "compensations (e # es) = compensations es"

fun clock_writes :: "event list \<Rightarrow> qreal list" where
  "clock_writes [] = []"
| "clock_writes (SetClock t # es) = t # clock_writes es"
| "clock_writes (e # es) = clock_writes es"

definition convert_wantedSamples :: "libs \<Rightarrow> AudioStream \<Rightarrow> AVFrame \<Rightarrow> int" where
  "convert_wantedSamples ext s iFrame = fst (snd (snd (convert_sync ext s iFrame)))"

fun packet_caps_of :: "AkPacket \<Rightarrow> AkAudioCaps list" where
  "packet_caps_of AkPacket_empty = []"
| "packet_caps_of (AkPacket_audio p) = [packet_caps p]"

text \<open>The set-ups of the resampler: output layout, format and rate, input layout, format and rate.\<close>

fun setups :: "event list \<Rightarrow> (nat \<times> AVSampleFormat \<times> int \<times> nat \<times> AVSampleFormat \<times> int) list" where
  "setups [] = []"
| "setups (AllocSetOpts ol ofmt orate il ifmt irate # es) =
     (ol, ofmt, orate, il, ifmt, irate) # setups es"
| "setups (e # es) = setups es"

text \<open>The packets sent with the signal \<open>oStream\<close>, and the number of signals \<open>frameSent\<close>.\<close>

fun emitted :: "event list \<Rightarrow> AkPacket list" where
  "emitted [] = []"
| "emitted (OStream p # es) = p # emitted es"
| "emitted (e # es) = emitted es"

fun frames_sent :: "event list \<Rightarrow> nat" where
  "frames_sent [] = 0"
| "frames_sent (FrameSent # es) = Suc (frames_sent es)"
| "frames_sent (e # es) = frames_sent es"

text \<open>
  A call of the resampler fails in convert: the tests of lines 169 (the compensation is
  rejected), 209 (no resampler), 230 (the output frame cannot be filled) and 243 (the
  conversion fails).
\<close>

definition convert_call_fails :: "libs \<Rightarrow> AudioStream \<Rightarrow> AVFrame \<Rightarrow> bool" where
  "convert_call_fails ext s iFrame =
     (case convert_sync ext s iFrame of
        (s1, evs, wantedSamples, proceed) \<Rightarrow>
          \<not> proceed \<or>
          (case swr_alloc_set_opts ext (m_resampleContext s1) (convert_oLayout iFrame)
                  (convert_oFormat ext iFrame) (sample_rate iFrame)
                  (channel_layout iFrame) (format iFrame) (sample_rate iFrame) of
             None \<Rightarrow> True
           | Some c \<Rightarrow>
               (case avcodec_fill_audio_frame ext (convert_oFrame ext iFrame wantedSamples)
                       (av_get_channel_layout_nb_channels ext (convert_oLayout iFrame))
                       (convert_oFormat ext iFrame)
                       (av_samples_get_buffer_size ext
                          (av_get_channel_layout_nb_channels ext (convert_oLayout iFrame))
                          wantedSamples (convert_oFormat ext iFrame)) of
                  (filled, oFrame) \<Rightarrow>
                    filled < 0 \<or> fst (swr_convert_frame ext c oFrame iFrame) < 0)))"

subsection \<open>The negotiation as the specification words it\<close>

text \<open>
  The output format is the packed equivalent of the input format if that is 8-bit
  unsigned, 16-bit signed, 32-bit signed or 32-bit float, and 32-bit float otherwise; the
  output layout is the input layout if that is mono or stereo, and stereo otherwise.
\<close>

definition negotiated_format :: "AVSampleFormat \<Rightarrow> AVSampleFormat" where
  "negotiated_format packed =
     (if packed \<in> {AV_SAMPLE_FMT_U8, AV_SAMPLE_FMT_S16, AV_SAMPLE_FMT_S32, AV_SAMPLE_FMT_FLT}
      then packed else AV_SAMPLE_FMT_FLT)"

definition negotiated_layout :: "nat \<Rightarrow> nat" where
  "negotiated_layout l =
     (if l \<in> {AV_CH_LAYOUT_MONO, AV_CH_LAYOUT_STEREO} then l else AV_CH_LAYOUT_STEREO)"

fun format_name :: "AVSampleFormat \<Rightarrow> SampleFormat list" where
  "format_name AV_SAMPLE_FMT_U8 = [SampleFormat_u8]"
| "format_name AV_SAMPLE_FMT_S16 = [SampleFormat_s16]"
| "format_name AV_SAMPLE_FMT_S32 = [SampleFormat_s32]"
| "format_name AV_SAMPLE_FMT_FLT = [SampleFormat_flt]"
| "format_name (AV_SAMPLE_FMT_OTHER v) = []"

subsection \<open>Frames in sequence\<close>

text \<open>
  The frames of a stream are converted in their order of arrival; each comes with the
  reading of the clock at its arrival.
\<close>

fun convert_frames ::
  "libs \<Rightarrow> AudioStream \<Rightarrow> (qreal \<times> AVFrame) list \<Rightarrow> AudioStream \<times> (event list \<times> AkPacket) list" where
  "convert_frames ext s [] = (s, [])"
| "convert_frames ext s (cf # fs) =
     (case convert ext (s\<lparr>globalClock := fst cf\<rparr>) (snd cf) of
        (s', evs, oPacket) \<Rightarrow>
          (case convert_frames ext s' fs of
             (s'', outs) \<Rightarrow> (s'', (evs, oPacket) # outs)))"

text \<open>The value the constructor gives \<open>audioDiffAvgCoef\<close>.\<close>

definition coef :: real where
  "coef = exp (ln (1 / 100) / 20)"

text \<open>The filter after k frames of the same difference d.\<close>

definition steady :: "real \<Rightarrow> nat \<Rightarrow> AudioStream \<Rightarrow> bool" where
  "steady d k s \<longleftrightarrow>
     audioDiffAvgCoef s = Fin coef \<and>
     audioDiffCum s = Fin (d * (1 - coef ^ k) / (1 - coef)) \<and>
     audioDiffAvgCount s = min (int k) 20"

subsection \<open>Example inputs\<close>

text \<open>
  A library whose calls all succeed, a stream as the constructor leaves it (time base 1/10 s,
  clock at 0.0) and a frame of 1024 samples at 48000 Hz.
\<close>

definition libs_example :: libs where
  "libs_example =
     \<lparr>AkFrac_value = (\<lambda>tb. qdiv (qreal_of_int (fst tb)) (qreal_of_int (snd tb))),
      AkAudioCaps_new =
        \<lparr>isValid = False, caps_format = SampleFormat_other 0, bps = 0, caps_channels = 0,
         rate = 0, layout = Layout_other 0, samples = 0, align = False\<rparr>,
      SampleFormat_new = SampleFormat_other 0,
      ChannelLayout_new = Layout_other 0,
      av_get_packed_sample_fmt = (\<lambda>fmt. fmt),
      av_get_bytes_per_sample = (\<lambda>fmt. 2),
      av_get_channel_layout_nb_channels = (\<lambda>l. if l = AV_CH_LAYOUT_MONO then 1 else 2),
      swr_set_compensation = (\<lambda>ctx d n. (0, ctx)),
      swr_alloc_set_opts = (\<lambda>ctx oLayout oFormat oRate iLayout iFormat iRate. Some 0),
      av_samples_get_buffer_size = (\<lambda>ch n fmt. ch * n * 2),
      avcodec_fill_audio_frame = (\<lambda>oFrame ch fmt size. (0, oFrame)),
      swr_convert_frame =
        (\<lambda>ctx oFrame iFrame. (0, ctx, oFrame, replicate (nat (nb_samples oFrame)) 0))\<rparr>"

definition stream_example :: AudioStream where
  "stream_example =
     AudioStream_new
       \<lparr>sample_fmt = AV_SAMPLE_FMT_S16, ctx_channel_layout = AV_CH_LAYOUT_STEREO,
        ctx_sample_rate = 48000\<rparr>
       (1, 10) 0 0 (Fin 0) (Fin 0)"

definition frame_example :: AVFrame where
  "frame_example =
     \<lparr>pts = 1, nb_samples = 1024, sample_rate = 48000, channel_layout = AV_CH_LAYOUT_STEREO,
      channels = 2, format = AV_SAMPLE_FMT_S16, data = []\<rparr>"

text \<open>Scenario B: a frame at 100.0 s (1000 ticks of 1/10 s) while the clock reads 0.0.\<close>

definition frame_scenario_B :: AVFrame where
  "frame_scenario_B = frame_example\<lparr>pts := 1000\<rparr>"

definition stream_scenario_B :: AudioStream where
  "stream_scenario_B = stream_example\<lparr>audioDiffCum := Fin (1 / 2), audioDiffAvgCount := 7\<rparr>"

definition stream_nan_clock :: AudioStream where
  "stream_nan_clock = stream_scenario_B\<lparr>globalClock := NaN\<rparr>"

text \<open>
  A frame one tick before the clock (a difference of -0.1 s), and the stream after 20
  such frames, the clock still at 0.0.
\<close>

definition frame_behind :: AVFrame where
  "frame_behind = frame_example\<lparr>pts := - 1\<rparr>"

definition stream_behind :: AudioStream where
  "stream_behind =
     (fst (convert_frames libs_example stream_example (replicate 20 (Fin 0, frame_behind))))
       \<lparr>globalClock := Fin 0\<rparr>"

text \<open>
  A library whose conversion fails, and a frame in a format and a layout that the tables
  do not hold.
\<close>

definition libs_failing :: libs where
  "libs_failing =
     libs_example
       \<lparr>swr_convert_frame := (\<lambda>ctx oFrame iFrame. (- 1, ctx, oFrame\<lparr>nb_samples := 0\<rparr>, []))\<rparr>"

definition frame_surround :: AVFrame where
  "frame_surround =
     frame_example\<lparr>channel_layout := 63, channels := 6, format := AV_SAMPLE_FMT_OTHER 7\<rparr>"

definition frame_nopts :: AVFrame where
  "frame_nopts = frame_example\<lparr>pts := AV_NOPTS_VALUE\<rparr>"

section \<open>Properties\<close>

subsection \<open>The parts of convert\<close>

lemma convert_oFrame_fields:
  "nb_samples (convert_oFrame ext f w) = w"
  "sample_rate (convert_oFrame ext f w) = sample_rate f"
  "pts (convert_oFrame ext f w) = pts f"
  "channel_layout (convert_oFrame ext f w) = convert_oLayout f"
  "format (convert_oFrame ext f w) = convert_oFormat ext f"
  by (simp_all add: convert_oFrame_def)

lemma convert_resample_sync_state:
  "audioDiffAvgCount (fst (convert_resample ext s f w)) = audioDiffAvgCount s"
  "audioDiffCum (fst (convert_resample ext s f w)) = audioDiffCum s"
  "audioDiffAvgCoef (fst (convert_resample ext s f w)) = audioDiffAvgCoef s"
  "globalClock (fst (convert_resample ext s f w)) = globalClock s"
  "m_clockDiff (fst (convert_resample ext s f w)) = m_clockDiff s"
  "timeBase (fst (convert_resample ext s f w)) = timeBase s"
  "m_pts (fst (convert_resample ext s f w)) = m_pts s"
  by (simp_all add: convert_resample_def Let_def split: option.splits prod.splits)

lemma convert_clock_state:
  "audioDiffAvgCount (fst (convert_clock s p d)) = audioDiffAvgCount s"
  "audioDiffCum (fst (convert_clock s p d)) = audioDiffCum s"
  "audioDiffAvgCoef (fst (convert_clock s p d)) = audioDiffAvgCoef s"
  "timeBase (fst (convert_clock s p d)) = timeBase s"
  "m_pts (fst (convert_clock s p d)) = m_pts s"
  "m_clockDiff (fst (convert_clock s p d)) = d"
  by (simp_all add: convert_clock_def)

lemma convert_sync_insync:
  assumes "\<not> qIsNaN (convert_diff ext s f)"
    and "qlt (qAbs (convert_diff ext s f)) AV_NOSYNC_THRESHOLD"
    and "audioDiffAvgCount s < AUDIO_DIFF_AVG_NB"
  shows "convert_sync ext s f =
      (s\<lparr>audioDiffCum := qadd (convert_diff ext s f) (qmul (audioDiffAvgCoef s) (audioDiffCum s)),
         audioDiffAvgCount := audioDiffAvgCount s + 1\<rparr>, [], nb_samples f, True)"
  using assms by (simp add: convert_sync_def Let_def)

lemma qlt_not_qge: "qlt x y \<Longrightarrow> \<not> qge x y"
  by (simp add: qge_def)

lemma convert_split:
  "convert ext s f =
    (if \<not> snd (snd (snd (convert_sync ext s f)))
     then (fst (convert_sync ext s f), fst (snd (convert_sync ext s f)), AkPacket_empty)
     else
       (let s1 = fst (convert_sync ext s f);
            c = convert_clock s1 (convert_pts ext s f) (convert_diff ext s f);
            r = convert_resample ext (fst c) f (fst (snd (snd (convert_sync ext s f))))
        in (fst r, fst (snd (convert_sync ext s f)) @ snd c @ fst (snd r), snd (snd r))))"
  by (simp add: convert_def Let_def split: prod.splits)

lemma compensations_append: "compensations (xs @ ys) = compensations xs @ compensations ys"
  by (induction xs rule: compensations.induct) simp_all

lemma clock_writes_append: "clock_writes (xs @ ys) = clock_writes xs @ clock_writes ys"
  by (induction xs rule: clock_writes.induct) simp_all

lemma convert_resample_quiet:
  "compensations (fst (snd (convert_resample ext s f w))) = []"
  "clock_writes (fst (snd (convert_resample ext s f w))) = []"
  by (simp_all add: convert_resample_def Let_def split: option.splits prod.splits)

lemma convert_clock_events:
  "compensations (snd (convert_clock s p d)) = []"
  "clock_writes (snd (convert_clock s p d)) = (if qge (qAbs d) AV_NOSYNC_THRESHOLD then [p] else [])"
  "globalClock (fst (convert_clock s p d)) = (if qge (qAbs d) AV_NOSYNC_THRESHOLD then p else globalClock s)"
  by (simp_all add: convert_clock_def)

lemma convert_sync_reset:
  assumes "qIsNaN (convert_diff ext s f) \<or> \<not> qlt (qAbs (convert_diff ext s f)) AV_NOSYNC_THRESHOLD"
  shows "convert_sync ext s f =
      (s\<lparr>audioDiffAvgCount := 0, audioDiffCum := Fin 0\<rparr>, [], nb_samples f, True)"
  using assms by (auto simp add: convert_sync_def Let_def)

lemma qAbs_NaN: "qAbs x = NaN \<longleftrightarrow> x = NaN"
  by (cases x) simp_all

lemma qge_NaN: "\<not> qge NaN y"
  by (simp add: qge_def)

lemma example_diff: "convert_diff libs_example stream_example frame_example = Fin (1 / 10)"
  by (simp add: convert_diff_def convert_pts_def libs_example_def stream_example_def
      frame_example_def AudioStream_new_def qreal_of_int_def qsub_def)

lemma scenario_B_pts: "convert_pts libs_example stream_scenario_B frame_scenario_B = Fin 100"
  by (simp add: convert_pts_def libs_example_def stream_example_def stream_scenario_B_def
      frame_scenario_B_def frame_example_def AudioStream_new_def qreal_of_int_def)

lemma scenario_B_diff: "convert_diff libs_example stream_scenario_B frame_scenario_B = Fin 100"
  by (simp add: convert_diff_def scenario_B_pts qsub_def)
    (simp add: stream_scenario_B_def stream_example_def AudioStream_new_def)

lemma nan_clock_diff: "convert_diff libs_example stream_nan_clock frame_example = NaN"
  by (simp add: convert_diff_def convert_pts_def libs_example_def stream_nan_clock_def
      stream_scenario_B_def stream_example_def frame_example_def AudioStream_new_def
      qreal_of_int_def qsub_def)

subsection \<open>The filter under a constant difference\<close>

lemma coef_pos: "0 < coef"
  by (simp add: coef_def)

lemma coef_less_1: "coef < 1"
  by (simp add: coef_def)

lemma coef_power_20: "coef ^ 20 = 1 / 100"
proof -
  have "coef ^ 20 = exp (of_nat 20 * (ln (1 / 100) / 20))"
    unfolding coef_def by (rule exp_of_nat_mult [symmetric])
  also have "\<dots> = exp (ln (1 / 100))" by simp
  also have "\<dots> = 1 / 100" by simp
  finally show ?thesis .
qed

lemma coef_power_bound: "20 \<le> k \<Longrightarrow> coef ^ k \<le> 1 / 100"
  using power_decreasing [of 20 k coef] coef_pos coef_less_1 coef_power_20 by simp

lemma AudioStream_new_coef:
  "audioDiffAvgCoef (AudioStream_new cc tb idx sid clk cd) = Fin coef"
  by (simp add: AudioStream_new_def coef_def AUDIO_DIFF_AVG_NB_def)

lemma steady_new: "steady d 0 (AudioStream_new cc tb idx sid clk cd)"
  by (simp add: steady_def AudioStream_new_coef) (simp add: AudioStream_new_def)

lemma geometric_step:
  "d + coef * (d * (1 - coef ^ k) / (1 - coef)) = d * (1 - coef ^ Suc k) / (1 - coef)"
  using coef_less_1 by (simp add: field_simps)

lemma convert_sync_fields:
  "audioDiffAvgCoef (fst (convert_sync ext s f)) = audioDiffAvgCoef s"
  "timeBase (fst (convert_sync ext s f)) = timeBase s"
  "m_pts (fst (convert_sync ext s f)) = m_pts s"
  by (simp_all add: convert_sync_def Let_def split: prod.splits)

lemma convert_fields:
  "audioDiffAvgCoef (fst (convert ext s f)) = audioDiffAvgCoef s"
  "timeBase (fst (convert ext s f)) = timeBase s"
  "m_pts (fst (convert ext s f)) = m_pts s"
  "audioDiffCum (fst (convert ext s f)) = audioDiffCum (fst (convert_sync ext s f))"
  "audioDiffAvgCount (fst (convert ext s f)) = audioDiffAvgCount (fst (convert_sync ext s f))"
  by (simp_all add: convert_split Let_def convert_resample_sync_state convert_clock_state
      convert_sync_fields)

lemma convert_sync_cum:
  assumes "convert_diff ext s f = Fin d" and "\<bar>d\<bar> < 10"
  shows "audioDiffCum (fst (convert_sync ext s f)) = qadd (Fin d) (qmul (audioDiffAvgCoef s) (audioDiffCum s))"
    and "audioDiffAvgCount (fst (convert_sync ext s f)) =
           (if audioDiffAvgCount s < 20 then audioDiffAvgCount s + 1 else audioDiffAvgCount s)"
  using assms
  by (simp_all add: convert_sync_def Let_def qIsNaN_def AV_NOSYNC_THRESHOLD_def
      AUDIO_DIFF_AVG_NB_def split: prod.splits)

lemma steady_step:
  assumes "steady d k s" and "convert_diff ext s f = Fin d" and "\<bar>d\<bar> < 10"
  shows "steady d (Suc k) (fst (convert ext s f))"
proof -
  from assms(1) have c: "audioDiffAvgCoef s = Fin coef"
    and m: "audioDiffCum s = Fin (d * (1 - coef ^ k) / (1 - coef))"
    and n: "audioDiffAvgCount s = min (int k) 20"
    by (simp_all add: steady_def)
  have "audioDiffCum (fst (convert ext s f)) = Fin (d * (1 - coef ^ Suc k) / (1 - coef))"
    by (simp only: convert_fields convert_sync_cum [OF assms(2,3)] c m qmul.simps qadd.simps
        geometric_step)
  moreover have "audioDiffAvgCount (fst (convert ext s f)) = min (int (Suc k)) 20"
    by (simp add: convert_fields convert_sync_cum [OF assms(2,3)] n)
  ultimately show ?thesis
    by (simp add: steady_def convert_fields c)
qed

subsection \<open>The correction\<close>

lemma int32_id: "- (2 ^ 31) \<le> i \<Longrightarrow> i < 2 ^ 31 \<Longrightarrow> int32 i = i"
  by (simp add: int32_def signed_take_bit_int_eq_self)

lemma sdiv_nonneg: "0 \<le> (a::int) \<Longrightarrow> 0 < b \<Longrightarrow> a sdiv b = a div b"
  by (cases "a = 0") (simp_all add: signed_divide_int_def)

lemma steady_average:
  assumes "20 \<le> k"
  shows "99 / 100 * \<bar>d\<bar> \<le> \<bar>d * (1 - coef ^ Suc k) / (1 - coef) * (1 - coef)\<bar>"
proof -
  have "coef ^ Suc k \<le> 1 / 100"
    using assms by (intro coef_power_bound) simp
  then have "99 / 100 \<le> 1 - coef ^ Suc k" by simp
  then have "99 / 100 * \<bar>d\<bar> \<le> (1 - coef ^ Suc k) * \<bar>d\<bar>"
    by (intro mult_right_mono) simp_all
  also have "\<dots> = \<bar>d * (1 - coef ^ Suc k)\<bar>"
    using \<open>99 / 100 \<le> 1 - coef ^ Suc k\<close> by (simp add: abs_mult)
  also have "d * (1 - coef ^ Suc k) = d * (1 - coef ^ Suc k) / (1 - coef) * (1 - coef)"
    using coef_less_1 by simp
  finally show ?thesis .
qed

lemma convert_sync_correction:
  assumes "convert_diff ext s f = Fin d" and "\<bar>d\<bar> < 10"
    and "\<not> audioDiffAvgCount s < 20"
    and "convert_over_threshold
           (s\<lparr>audioDiffCum := qadd (Fin d) (qmul (audioDiffAvgCoef s) (audioDiffCum s))\<rparr>) f"
  shows "fst (snd (snd (convert_sync ext s f))) = convert_correction (Fin d) f"
    and "compensations (fst (snd (convert_sync ext s f))) =
      (if convert_correction (Fin d) f \<noteq> nb_samples f
       then [(int32 (convert_correction (Fin d) f - nb_samples f), convert_correction (Fin d) f)]
       else [])"
  using assms
  by (simp_all add: convert_sync_def Let_def qIsNaN_def AV_NOSYNC_THRESHOLD_def
      AUDIO_DIFF_AVG_NB_def split: prod.splits)

lemma steady_over_threshold:
  assumes st: "steady d k s" and k: "20 \<le> k"
    and rate: "0 < sample_rate f"
    and thr: "2 * real_of_int (nb_samples f) / real_of_int (sample_rate f) \<le> 99 / 100 * \<bar>d\<bar>"
  shows "convert_over_threshold
           (s\<lparr>audioDiffCum := qadd (Fin d) (qmul (audioDiffAvgCoef s) (audioDiffCum s))\<rparr>) f"
proof -
  from st have c: "audioDiffAvgCoef s = Fin coef"
    and m: "audioDiffCum s = Fin (d * (1 - coef ^ k) / (1 - coef))"
    by (simp_all add: steady_def)
  have cum: "qadd (Fin d) (qmul (Fin coef) (Fin (d * (1 - coef ^ k) / (1 - coef)))) =
      Fin (d * (1 - coef ^ Suc k) / (1 - coef))"
    by (simp only: qmul.simps qadd.simps geometric_step)
  have "2 * real_of_int (nb_samples f) / real_of_int (sample_rate f)
      \<le> \<bar>d * (1 - coef ^ Suc k) / (1 - coef) * (1 - coef)\<bar>"
    using steady_average [OF k, of d] thr by linarith
  then have "qge (qAbs (qmul (Fin (d * (1 - coef ^ Suc k) / (1 - coef))) (qsub (Fin 1) (Fin coef))))
      (qdiv (qmul (Fin 2) (qreal_of_int (nb_samples f))) (qreal_of_int (sample_rate f)))"
    using rate by (simp add: qge_def qsub_def qreal_of_int_def del: power_Suc)
  moreover have "audioDiffCum (s\<lparr>audioDiffCum := x\<rparr>) = x"
    and "audioDiffAvgCoef (s\<lparr>audioDiffCum := x\<rparr>) = audioDiffAvgCoef s" for x
    by simp_all
  ultimately show ?thesis
    by (simp only: convert_over_threshold_def Let_def c m cum)
qed

lemma steady_sync:
  assumes st: "steady d k s" and k: "20 \<le> k"
    and diff: "convert_diff ext s f = Fin d" and d: "\<bar>d\<bar> < 10"
    and rate: "0 < sample_rate f"
    and thr: "2 * real_of_int (nb_samples f) / real_of_int (sample_rate f) \<le> 99 / 100 * \<bar>d\<bar>"
  shows "fst (snd (snd (convert_sync ext s f))) = convert_correction (Fin d) f"
    and "compensations (fst (snd (convert_sync ext s f))) =
      (if convert_correction (Fin d) f \<noteq> nb_samples f
       then [(int32 (convert_correction (Fin d) f - nb_samples f), convert_correction (Fin d) f)]
       else [])"
proof -
  from st k have n20: "\<not> audioDiffAvgCount s < 20" by (simp add: steady_def)
  note over = steady_over_threshold [OF st k rate thr]
  show "fst (snd (snd (convert_sync ext s f))) = convert_correction (Fin d) f"
    by (rule convert_sync_correction [OF diff d n20 over])
  show "compensations (fst (snd (convert_sync ext s f))) =
      (if convert_correction (Fin d) f \<noteq> nb_samples f
       then [(int32 (convert_correction (Fin d) f - nb_samples f), convert_correction (Fin d) f)]
       else [])"
    by (rule convert_sync_correction [OF diff d n20 over])
qed

lemma steady_sync_few:
  assumes st: "steady d k s" and k: "k < 20"
    and diff: "convert_diff ext s f = Fin d" and d: "\<bar>d\<bar> < 10"
  shows "fst (snd (snd (convert_sync ext s f))) = nb_samples f"
    and "compensations (fst (snd (convert_sync ext s f))) = []"
proof -
  from st k have n: "audioDiffAvgCount s < AUDIO_DIFF_AVG_NB"
    by (simp add: steady_def AUDIO_DIFF_AVG_NB_def)
  have h1: "\<not> qIsNaN (convert_diff ext s f)" by (simp add: diff qIsNaN_def)
  have h2: "qlt (qAbs (convert_diff ext s f)) AV_NOSYNC_THRESHOLD"
    using d by (simp add: diff AV_NOSYNC_THRESHOLD_def)
  note sync = convert_sync_insync [OF h1 h2 n]
  show "fst (snd (snd (convert_sync ext s f))) = nb_samples f" by (simp add: sync)
  show "compensations (fst (snd (convert_sync ext s f))) = []" by (simp add: sync)
qed

lemma convert_compensations:
  "compensations (fst (snd (convert ext s f))) = compensations (fst (snd (convert_sync ext s f)))"
  by (simp add: convert_split Let_def compensations_append convert_clock_events
      convert_resample_quiet)

lemma correction_1024_up:
  "nb_samples f = 1024 \<Longrightarrow> sample_rate f = 48000 \<Longrightarrow> convert_correction (Fin (1 / 10)) f = 1126"
  by (simp add: convert_correction_def SAMPLE_CORRECTION_PERCENT_MAX_def qBound_def int32_id
      INT_MIN_def INT_MAX_def truncate_real_def sdiv_nonneg qreal_of_int_def)

lemma correction_1024_down:
  "nb_samples f = 1024 \<Longrightarrow> sample_rate f = 48000 \<Longrightarrow> convert_correction (Fin (- 1 / 10)) f = 921"
  by (simp add: convert_correction_def SAMPLE_CORRECTION_PERCENT_MAX_def qBound_def int32_id
      INT_MIN_def INT_MAX_def truncate_real_def sdiv_nonneg qreal_of_int_def)

lemma convert_diff_clock:
  "convert_diff ext (s\<lparr>globalClock := c\<rparr>) f =
     qsub (qmul (qreal_of_int (pts f)) (AkFrac_value ext (timeBase s))) c"
  by (simp add: convert_diff_def convert_pts_def)

lemma steady_clock: "steady d k (s\<lparr>globalClock := c\<rparr>) = steady d k s"
  by (simp add: steady_def)

lemma convert_frames_Cons:
  "fst (convert_frames ext s (cf # fs)) =
     fst (convert_frames ext (fst (convert ext (s\<lparr>globalClock := fst cf\<rparr>) (snd cf))) fs)"
  "snd (convert_frames ext s (cf # fs)) =
     snd (convert ext (s\<lparr>globalClock := fst cf\<rparr>) (snd cf))
     # snd (convert_frames ext (fst (convert ext (s\<lparr>globalClock := fst cf\<rparr>) (snd cf))) fs)"
  by (simp_all split: prod.splits)

lemma convert_frames_length: "length (snd (convert_frames ext s fs)) = length fs"
  by (induction fs arbitrary: s) (simp_all add: convert_frames_Cons del: convert_frames.simps(2))

lemma constant_diff_run:
  assumes "steady d k s" and "\<bar>d\<bar> < 10" and "0 < sr"
    and "2 * real_of_int nb / real_of_int sr \<le> 99 / 100 * \<bar>d\<bar>"
    and "\<forall>cf\<in>set fs. nb_samples (snd cf) = nb \<and> sample_rate (snd cf) = sr \<and>
           qsub (qmul (qreal_of_int (pts (snd cf))) (AkFrac_value ext (timeBase s))) (fst cf) = Fin d"
    and "\<And>f. nb_samples f = nb \<Longrightarrow> sample_rate f = sr \<Longrightarrow> convert_correction (Fin d) f = w"
    and "w \<noteq> nb"
  shows "steady d (k + length fs) (fst (convert_frames ext s fs)) \<and>
         map (\<lambda>out. compensations (fst out)) (snd (convert_frames ext s fs)) =
         map (\<lambda>j. if k + j < 20 then [] else [(int32 (w - nb), w)]) [0..<length fs]"
  using assms(1,5)
proof (induction fs arbitrary: s k)
  case Nil
  then show ?case by simp
next
  case (Cons cf fs)
  let ?s = "s\<lparr>globalClock := fst cf\<rparr>"
  let ?s' = "fst (convert ext ?s (snd cf))"
  from Cons.prems(2) have nb: "nb_samples (snd cf) = nb" and sr: "sample_rate (snd cf) = sr"
    and diff: "convert_diff ext ?s (snd cf) = Fin d"
    by (simp_all add: convert_diff_clock)
  have st: "steady d k ?s" using Cons.prems(1) by (simp add: steady_clock)
  have st': "steady d (Suc k) ?s'"
    by (rule steady_step [OF st diff assms(2)])
  have tb: "timeBase ?s' = timeBase s" by (simp add: convert_fields)
  have rest: "\<forall>cf\<in>set fs. nb_samples (snd cf) = nb \<and> sample_rate (snd cf) = sr \<and>
      qsub (qmul (qreal_of_int (pts (snd cf))) (AkFrac_value ext (timeBase ?s'))) (fst cf) = Fin d"
    using Cons.prems(2) by (simp add: tb)
  note IH = Cons.IH [OF st' rest]
  have head: "compensations (fst (snd (convert ext ?s (snd cf)))) =
      (if k < 20 then [] else [(int32 (w - nb), w)])"
  proof (cases "k < 20")
    case True
    then show ?thesis
      by (simp add: convert_compensations steady_sync_few [OF st True diff assms(2)])
  next
    case False
    then have k: "20 \<le> k" by simp
    have rate: "0 < sample_rate (snd cf)" using assms(3) by (simp add: sr)
    have thr: "2 * real_of_int (nb_samples (snd cf)) / real_of_int (sample_rate (snd cf))
        \<le> 99 / 100 * \<bar>d\<bar>"
      using assms(4) by (simp add: nb sr)
    have w: "convert_correction (Fin d) (snd cf) = w" by (rule assms(6) [OF nb sr])
    show ?thesis
      using False assms(7)
      by (simp add: convert_compensations steady_sync [OF st k diff assms(2) rate thr] w nb)
  qed
  have shift: "map (\<lambda>j. if k + j < 20 then [] else [(int32 (w - nb), w)]) [0..<length (cf # fs)] =
      (if k < 20 then [] else [(int32 (w - nb), w)])
      # map (\<lambda>j. if Suc k + j < 20 then [] else [(int32 (w - nb), w)]) [0..<length fs]"
    by (simp add: upt_conv_Cons map_Suc_upt [symmetric] del: upt_Suc)
  show ?case
    using IH by (simp only: convert_frames_Cons list.map head shift) simp
qed

lemma compensation_pattern:
  "map (\<lambda>j. if 0 + j < 20 then [] else [(int32 (1126 - 1024), 1126::int)]) [0..<25] =
     replicate 20 [] @ replicate 5 [(102, 1126)]"
  by code_simp

lemma steady_count: "steady d k s \<Longrightarrow> audioDiffAvgCount s = min (int k) 20"
  by (simp add: steady_def)

lemma example_frames:
  "\<forall>cf\<in>set (replicate n (Fin 0, frame_example)).
     nb_samples (snd cf) = 1024 \<and> sample_rate (snd cf) = 48000 \<and>
     convert_diff libs_example (stream_example\<lparr>globalClock := fst cf\<rparr>) (snd cf) = Fin (1 / 10)"
  by (simp add: convert_diff_clock)
    (simp add: libs_example_def stream_example_def frame_example_def AudioStream_new_def
      qreal_of_int_def qsub_def)

lemma example_run:
  "steady (1 / 10) (0 + n) (fst (convert_frames libs_example stream_example (replicate n (Fin 0, frame_example)))) \<and>
   map (\<lambda>out. compensations (fst out))
     (snd (convert_frames libs_example stream_example (replicate n (Fin 0, frame_example)))) =
   map (\<lambda>j. if 0 + j < 20 then [] else [(int32 (1126 - 1024), 1126)]) [0..<n]"
proof -
  have st: "steady (1 / 10) 0 stream_example"
    unfolding stream_example_def by (rule steady_new)
  have fr: "\<forall>cf\<in>set (replicate n (Fin 0, frame_example)).
     nb_samples (snd cf) = 1024 \<and> sample_rate (snd cf) = 48000 \<and>
     qsub (qmul (qreal_of_int (pts (snd cf))) (AkFrac_value libs_example (timeBase stream_example))) (fst cf)
       = Fin (1 / 10)"
    using example_frames [of n] by (simp add: convert_diff_clock)
  have "steady (1 / 10) (0 + length (replicate n (Fin 0, frame_example)))
      (fst (convert_frames libs_example stream_example (replicate n (Fin 0, frame_example)))) \<and>
    map (\<lambda>out. compensations (fst out))
      (snd (convert_frames libs_example stream_example (replicate n (Fin 0, frame_example)))) =
    map (\<lambda>j. if 0 + j < 20 then [] else [(int32 (1126 - 1024), 1126)])
      [0..<length (replicate n (Fin 0, frame_example))]"
  proof (rule constant_diff_run [OF st _ _ _ fr])
    show "convert_correction (Fin (1 / 10)) f = 1126"
      if "nb_samples f = 1024" and "sample_rate f = 48000" for f
      using that by (rule correction_1024_up)
  qed simp_all
  then show ?thesis by simp
qed

lemma behind_frames:
  "\<forall>cf\<in>set (replicate n (Fin 0, frame_behind)).
     nb_samples (snd cf) = 1024 \<and> sample_rate (snd cf) = 48000 \<and>
     qsub (qmul (qreal_of_int (pts (snd cf))) (AkFrac_value libs_example (timeBase stream_example))) (fst cf)
       = Fin (- 1 / 10)"
  by (simp add: libs_example_def stream_example_def frame_example_def frame_behind_def
      AudioStream_new_def qreal_of_int_def qsub_def)

lemma behind_run:
  "steady (- 1 / 10) 20
     (fst (convert_frames libs_example stream_example (replicate 20 (Fin 0, frame_behind))))"
proof -
  have st: "steady (- 1 / 10) 0 stream_example"
    unfolding stream_example_def by (rule steady_new)
  have "steady (- 1 / 10) (0 + length (replicate 20 (Fin 0, frame_behind)))
      (fst (convert_frames libs_example stream_example (replicate 20 (Fin 0, frame_behind)))) \<and>
    map (\<lambda>out. compensations (fst out))
      (snd (convert_frames libs_example stream_example (replicate 20 (Fin 0, frame_behind)))) =
    map (\<lambda>j. if 0 + j < 20 then [] else [(int32 (921 - 1024), 921)])
      [0..<length (replicate 20 (Fin 0, frame_behind))]"
  proof (rule constant_diff_run [OF st _ _ _ behind_frames])
    show "convert_correction (Fin (- 1 / 10)) f = 921"
      if "nb_samples f = 1024" and "sample_rate f = 48000" for f
      using that by (rule correction_1024_down)
  qed simp_all
  then show ?thesis by simp
qed

lemma convert_frames_timeBase: "timeBase (fst (convert_frames ext s fs)) = timeBase s"
  by (induction fs arbitrary: s)
    (simp_all add: convert_frames_Cons convert_fields del: convert_frames.simps(2))

lemma behind_wanted:
  "convert_wantedSamples libs_example stream_behind frame_behind = 921"
proof -
  let ?s = "stream_behind"
  have st: "steady (- 1 / 10) 20 ?s"
    using behind_run by (simp add: stream_behind_def steady_clock)
  have diff: "convert_diff libs_example ?s frame_behind = Fin (- 1 / 10)"
    using behind_frames [of 1]
    by (simp add: stream_behind_def convert_diff_clock convert_frames_timeBase)
  have nb: "nb_samples frame_behind = 1024" and sr: "sample_rate frame_behind = 48000"
    by (simp_all add: frame_behind_def frame_example_def)
  have "convert_wantedSamples libs_example ?s frame_behind
      = convert_correction (Fin (- 1 / 10)) frame_behind"
    unfolding convert_wantedSamples_def
    by (rule steady_sync(1) [OF st _ diff]) (simp_all add: nb sr)
  with correction_1024_down [OF nb sr] show ?thesis by simp
qed

lemma qBound_between: "mn \<le> mx \<Longrightarrow> mn \<le> qBound mn v mx \<and> qBound mn v mx \<le> mx"
  by (simp add: qBound_def)

lemma convert_correction_bounds:
  assumes "0 \<le> nb_samples f" and "nb_samples f * 110 \<le> INT_MAX"
  shows "nb_samples f * 90 div 100 \<le> convert_correction d f"
    and "convert_correction d f \<le> nb_samples f * 110 div 100"
proof -
  from assms have lo: "int32 (nb_samples f * 90) = nb_samples f * 90"
    and hi: "int32 (nb_samples f * 110) = nb_samples f * 110"
    by (simp_all add: int32_id INT_MAX_def)
  have le: "nb_samples f * 90 div 100 \<le> nb_samples f * 110 div 100"
    using assms(1) by (intro zdiv_mono1) simp_all
  have eq: "convert_correction d f =
      qBound (nb_samples f * 90 div 100)
        (int32 (nb_samples f + double_to_int (qmul d (qreal_of_int (sample_rate f)))))
        (nb_samples f * 110 div 100)"
    using assms(1)
    by (simp add: convert_correction_def Let_def SAMPLE_CORRECTION_PERCENT_MAX_def lo hi
        sdiv_nonneg)
  show "nb_samples f * 90 div 100 \<le> convert_correction d f"
    and "convert_correction d f \<le> nb_samples f * 110 div 100"
    using qBound_between [OF le] by (simp_all add: eq)
qed

lemma convert_wantedSamples_cases:
  "convert_wantedSamples ext s f = nb_samples f \<or>
   convert_wantedSamples ext s f = convert_correction (convert_diff ext s f) f"
  by (simp add: convert_wantedSamples_def convert_sync_def Let_def split: prod.splits)

subsection \<open>Counting, signals and packets\<close>

lemma convert_count:
  "audioDiffAvgCount (fst (convert ext s f)) =
     (if \<not> qIsNaN (convert_diff ext s f) \<and> qlt (qAbs (convert_diff ext s f)) AV_NOSYNC_THRESHOLD
      then (if audioDiffAvgCount s < 20 then audioDiffAvgCount s + 1 else audioDiffAvgCount s)
      else 0)"
  by (simp add: convert_fields convert_sync_def Let_def AUDIO_DIFF_AVG_NB_def split: prod.splits)

lemma convert_cum_reset:
  assumes "qIsNaN (convert_diff ext s f) \<or> \<not> qlt (qAbs (convert_diff ext s f)) AV_NOSYNC_THRESHOLD"
  shows "audioDiffCum (fst (convert ext s f)) = Fin 0"
  by (simp add: convert_fields convert_sync_reset [OF assms])

lemma convert_count_range:
  "0 \<le> audioDiffAvgCount s \<and> audioDiffAvgCount s \<le> 20 \<Longrightarrow>
   0 \<le> audioDiffAvgCount (fst (convert ext s f)) \<and> audioDiffAvgCount (fst (convert ext s f)) \<le> 20"
  by (simp add: convert_count)

lemma convert_frames_count_range:
  "0 \<le> audioDiffAvgCount s \<and> audioDiffAvgCount s \<le> 20 \<Longrightarrow>
   0 \<le> audioDiffAvgCount (fst (convert_frames ext s fs)) \<and>
   audioDiffAvgCount (fst (convert_frames ext s fs)) \<le> 20"
proof (induction fs arbitrary: s)
  case Nil
  then show ?case by simp
next
  case (Cons cf fs)
  have "0 \<le> audioDiffAvgCount (s\<lparr>globalClock := fst cf\<rparr>) \<and>
      audioDiffAvgCount (s\<lparr>globalClock := fst cf\<rparr>) \<le> 20"
    using Cons.prems by simp
  then have "0 \<le> audioDiffAvgCount (fst (convert ext (s\<lparr>globalClock := fst cf\<rparr>) (snd cf))) \<and>
      audioDiffAvgCount (fst (convert ext (s\<lparr>globalClock := fst cf\<rparr>) (snd cf))) \<le> 20"
    by (rule convert_count_range)
  then show ?case
    by (simp only: convert_frames_Cons Cons.IH)
qed

lemma int64_id: "- (2 ^ 63) \<le> i \<Longrightarrow> i < 2 ^ 63 \<Longrightarrow> int64 i = i"
  by (simp add: int64_def signed_take_bit_int_eq_self)

lemma processData_split:
  "processData ext s frame =
     ((fst (convert ext s (processData_pts s frame)))
        \<lparr>m_pts := int64 (pts (processData_pts s frame) + nb_samples frame)\<rparr>,
      fst (snd (convert ext s (processData_pts s frame)))
      @ [OStream (snd (snd (convert ext s (processData_pts s frame)))), FrameSent])"
  by (simp add: processData_def Let_def processData_pts_def split: prod.splits)

lemma processData_pts_idem: "processData_pts s (processData_pts s frame) = processData_pts s frame"
  by (simp add: processData_pts_def)

lemma emitted_append: "emitted (xs @ ys) = emitted xs @ emitted ys"
  by (induction xs rule: emitted.induct) simp_all

lemma frames_sent_append: "frames_sent (xs @ ys) = frames_sent xs + frames_sent ys"
  by (induction xs rule: frames_sent.induct) simp_all

lemma setups_append: "setups (xs @ ys) = setups xs @ setups ys"
  by (induction xs rule: setups.induct) simp_all

lemma convert_sync_events:
  "emitted (fst (snd (convert_sync ext s f))) = []"
  "frames_sent (fst (snd (convert_sync ext s f))) = 0"
  "setups (fst (snd (convert_sync ext s f))) = []"
  by (simp_all add: convert_sync_def Let_def split: prod.splits)

lemma convert_clock_silent:
  "emitted (snd (convert_clock s p d)) = []"
  "frames_sent (snd (convert_clock s p d)) = 0"
  "setups (snd (convert_clock s p d)) = []"
  "m_resampleContext (fst (convert_clock s p d)) = m_resampleContext s"
  by (simp_all add: convert_clock_def)

lemma convert_resample_silent:
  "emitted (fst (snd (convert_resample ext s f w))) = []"
  "frames_sent (fst (snd (convert_resample ext s f w))) = 0"
  by (simp_all add: convert_resample_def Let_def split: option.splits prod.splits)

lemma convert_resample_setups:
  "setups (fst (snd (convert_resample ext s f w))) =
     [(convert_oLayout f, convert_oFormat ext f, sample_rate f,
       channel_layout f, format f, sample_rate f)]"
  by (simp add: convert_resample_def Let_def split: option.splits prod.splits)

lemma convert_silent:
  "emitted (fst (snd (convert ext s f))) = []"
  "frames_sent (fst (snd (convert ext s f))) = 0"
  by (simp_all add: convert_split Let_def emitted_append frames_sent_append convert_sync_events
      convert_clock_silent convert_resample_silent)

lemma convert_setups:
  "setups (fst (snd (convert ext s f))) =
     (if snd (snd (snd (convert_sync ext s f)))
      then [(convert_oLayout f, convert_oFormat ext f, sample_rate f,
             channel_layout f, format f, sample_rate f)]
      else [])"
  by (simp add: convert_split Let_def setups_append convert_sync_events convert_clock_silent
      convert_resample_setups)

lemma convert_resample_packet:
  "map (\<lambda>c. c\<lparr>samples := n\<rparr>) (packet_caps_of (snd (snd (convert_resample ext s f w)))) =
     (case swr_alloc_set_opts ext (m_resampleContext s) (convert_oLayout f)
             (convert_oFormat ext f) (sample_rate f) (channel_layout f) (format f) (sample_rate f) of
        None \<Rightarrow> []
      | Some c \<Rightarrow>
          (case avcodec_fill_audio_frame ext (convert_oFrame ext f w)
                  (av_get_channel_layout_nb_channels ext (convert_oLayout f))
                  (convert_oFormat ext f)
                  (av_samples_get_buffer_size ext
                     (av_get_channel_layout_nb_channels ext (convert_oLayout f))
                     w (convert_oFormat ext f)) of
             (filled, oFrame) \<Rightarrow>
               if filled < 0 \<or> fst (swr_convert_frame ext c oFrame f) < 0 then []
               else [\<lparr>isValid = True,
                      caps_format =
                        QMap_value sampleFormats (convert_oFormat ext f) (SampleFormat_new ext),
                      bps = int32 (8 * av_get_bytes_per_sample ext (convert_oFormat ext f)),
                      caps_channels = av_get_channel_layout_nb_channels ext (convert_oLayout f),
                      rate = sample_rate f,
                      layout =
                        QMap_value channelLayouts (convert_oLayout f) (ChannelLayout_new ext),
                      samples = n,
                      align = False\<rparr>]))"
  by (simp add: convert_resample_def Let_def split: option.splits prod.splits)

lemma packet_caps_of_empty: "packet_caps_of p = [] \<longleftrightarrow> p = AkPacket_empty"
  by (cases p) simp_all

lemma convert_call_fails_split:
  "convert_call_fails ext s f \<longleftrightarrow>
     \<not> snd (snd (snd (convert_sync ext s f))) \<or>
     (case swr_alloc_set_opts ext (m_resampleContext (fst (convert_sync ext s f)))
             (convert_oLayout f) (convert_oFormat ext f) (sample_rate f)
             (channel_layout f) (format f) (sample_rate f) of
        None \<Rightarrow> True
      | Some c \<Rightarrow>
          (case avcodec_fill_audio_frame ext
                  (convert_oFrame ext f (fst (snd (snd (convert_sync ext s f)))))
                  (av_get_channel_layout_nb_channels ext (convert_oLayout f))
                  (convert_oFormat ext f)
                  (av_samples_get_buffer_size ext
                     (av_get_channel_layout_nb_channels ext (convert_oLayout f))
                     (fst (snd (snd (convert_sync ext s f)))) (convert_oFormat ext f)) of
             (filled, oFrame) \<Rightarrow>
               filled < 0 \<or> fst (swr_convert_frame ext c oFrame f) < 0))"
  by (cases "convert_sync ext s f" rule: prod_cases4)
    (simp add: convert_call_fails_def cong: option.case_cong)

lemma convert_packet_caps:
  "map (\<lambda>c. c\<lparr>samples := n\<rparr>) (packet_caps_of (snd (snd (convert ext s f)))) =
     (if convert_call_fails ext s f then []
      else [\<lparr>isValid = True,
             caps_format = QMap_value sampleFormats (convert_oFormat ext f) (SampleFormat_new ext),
             bps = int32 (8 * av_get_bytes_per_sample ext (convert_oFormat ext f)),
             caps_channels = av_get_channel_layout_nb_channels ext (convert_oLayout f),
             rate = sample_rate f,
             layout = QMap_value channelLayouts (convert_oLayout f) (ChannelLayout_new ext),
             samples = n,
             align = False\<rparr>])"
proof (cases "snd (snd (snd (convert_sync ext s f)))")
  case False
  then show ?thesis
    by (simp add: convert_split convert_call_fails_split)
next
  case True
  then show ?thesis
    by (simp add: convert_split Let_def convert_call_fails_split convert_resample_packet
        convert_clock_silent split: option.splits prod.splits)
qed

lemma convert_packet_fields:
  "map rate (packet_caps_of (snd (snd (convert ext s f)))) =
     (if convert_call_fails ext s f then [] else [sample_rate f])"
  "map layout (packet_caps_of (snd (snd (convert ext s f)))) =
     (if convert_call_fails ext s f then []
      else [QMap_value channelLayouts (convert_oLayout f) (ChannelLayout_new ext)])"
  "map (\<lambda>c. [caps_format c]) (packet_caps_of (snd (snd (convert ext s f)))) =
     (if convert_call_fails ext s f then []
      else [[QMap_value sampleFormats (convert_oFormat ext f) (SampleFormat_new ext)]])"
proof -
  let ?caps = "packet_caps_of (snd (snd (convert ext s f)))"
  have "map rate ?caps = map rate (map (\<lambda>c. c\<lparr>samples := 0\<rparr>) ?caps)"
    by (simp add: comp_def)
  then show "map rate ?caps = (if convert_call_fails ext s f then [] else [sample_rate f])"
    by (simp only: convert_packet_caps) simp
  have "map layout ?caps = map layout (map (\<lambda>c. c\<lparr>samples := 0\<rparr>) ?caps)"
    by (simp add: comp_def)
  then show "map layout ?caps =
     (if convert_call_fails ext s f then []
      else [QMap_value channelLayouts (convert_oLayout f) (ChannelLayout_new ext)])"
    by (simp only: convert_packet_caps) simp
  have "map (\<lambda>c. [caps_format c]) ?caps =
      map (\<lambda>c. [caps_format c]) (map (\<lambda>c. c\<lparr>samples := 0\<rparr>) ?caps)"
    by (simp add: comp_def)
  then show "map (\<lambda>c. [caps_format c]) ?caps =
     (if convert_call_fails ext s f then []
      else [[QMap_value sampleFormats (convert_oFormat ext f) (SampleFormat_new ext)]])"
    by (simp only: convert_packet_caps) simp
qed

lemma convert_packet_empty:
  "snd (snd (convert ext s f)) = AkPacket_empty \<longleftrightarrow> convert_call_fails ext s f"
  using convert_packet_caps [of 0 ext s f]
  by (cases "snd (snd (convert ext s f))") (auto split: if_splits)

lemma processData_emitted:
  "emitted (snd (processData ext s frame)) = [snd (snd (convert ext s (processData_pts s frame)))]"
  "frames_sent (snd (processData ext s frame)) = 1"
  by (simp_all add: processData_split emitted_append frames_sent_append convert_silent)

lemma failing_diff: "convert_diff libs_failing stream_example frame_example = Fin (1 / 10)"
  by (simp add: convert_diff_def convert_pts_def libs_failing_def libs_example_def
      stream_example_def frame_example_def AudioStream_new_def qreal_of_int_def qsub_def)

lemma example_pts: "processData_pts stream_example frame_example = frame_example"
  by (simp add: processData_pts_def frame_example_def AV_NOPTS_VALUE_def)

lemma failing_fails: "convert_call_fails libs_failing stream_example frame_example"
proof -
  have h1: "\<not> qIsNaN (convert_diff libs_failing stream_example frame_example)"
    by (simp add: failing_diff qIsNaN_def)
  have h2: "qlt (qAbs (convert_diff libs_failing stream_example frame_example)) AV_NOSYNC_THRESHOLD"
    by (simp add: failing_diff AV_NOSYNC_THRESHOLD_def)
  have h3: "audioDiffAvgCount stream_example < AUDIO_DIFF_AVG_NB"
    by (simp add: stream_example_def AudioStream_new_def AUDIO_DIFF_AVG_NB_def)
  show ?thesis
    by (simp add: convert_call_fails_def convert_sync_insync [OF h1 h2 h3])
      (simp add: libs_failing_def libs_example_def)
qed

lemma contains_sampleFormats:
  "QMap_contains sampleFormats fmt \<longleftrightarrow>
     fmt \<in> {AV_SAMPLE_FMT_U8, AV_SAMPLE_FMT_S16, AV_SAMPLE_FMT_S32, AV_SAMPLE_FMT_FLT}"
  by (cases fmt) (simp_all add: QMap_contains_def sampleFormats_def)

lemma contains_channelLayouts:
  "QMap_contains channelLayouts l \<longleftrightarrow> l \<in> {AV_CH_LAYOUT_MONO, AV_CH_LAYOUT_STEREO}"
  by (auto simp add: QMap_contains_def channelLayouts_def AV_CH_LAYOUT_MONO_def
      AV_CH_LAYOUT_STEREO_def)

lemma convert_oFormat_negotiated:
  "convert_oFormat ext f = negotiated_format (av_get_packed_sample_fmt ext (format f))"
  by (simp only: convert_oFormat_def Let_def contains_sampleFormats negotiated_format_def)

lemma convert_oLayout_negotiated:
  "convert_oLayout f = negotiated_layout (channel_layout f)"
  by (simp only: convert_oLayout_def contains_channelLayouts negotiated_layout_def)

lemma value_negotiated_format:
  "[QMap_value sampleFormats (negotiated_format fmt) d] = format_name (negotiated_format fmt)"
  by (cases fmt) (simp_all add: negotiated_format_def QMap_value_def sampleFormats_def)

lemma value_negotiated_layout:
  "QMap_value channelLayouts (negotiated_layout l) d =
     (if negotiated_layout l = AV_CH_LAYOUT_MONO then Layout_mono else Layout_stereo)"
  by (simp add: negotiated_layout_def QMap_value_def channelLayouts_def AV_CH_LAYOUT_MONO_def
      AV_CH_LAYOUT_STEREO_def)

lemma value_layout_stereo:
  "QMap_value channelLayouts l Layout_stereo =
     (if negotiated_layout l = AV_CH_LAYOUT_MONO then Layout_mono else Layout_stereo)"
  by (simp add: negotiated_layout_def QMap_value_def channelLayouts_def AV_CH_LAYOUT_MONO_def
      AV_CH_LAYOUT_STEREO_def)

lemma key_layout:
  "QMap_key channelLayouts
     (if negotiated_layout l = AV_CH_LAYOUT_MONO then Layout_mono else Layout_stereo)
     AV_CH_LAYOUT_STEREO = negotiated_layout l"
  by (simp add: negotiated_layout_def QMap_key_def channelLayouts_def AV_CH_LAYOUT_MONO_def
      AV_CH_LAYOUT_STEREO_def)

lemma caps_negotiated:
  "AudioStream_caps ext s =
     (AkAudioCaps_new ext)
       \<lparr>isValid := True,
        caps_format := QMap_value sampleFormats
          (negotiated_format (av_get_packed_sample_fmt ext (sample_fmt (codecContext s))))
          (SampleFormat_new ext),
        bps := int32 (8 * av_get_bytes_per_sample ext
          (negotiated_format (av_get_packed_sample_fmt ext (sample_fmt (codecContext s))))),
        caps_channels := av_get_channel_layout_nb_channels ext
          (negotiated_layout (ctx_channel_layout (codecContext s))),
        rate := ctx_sample_rate (codecContext s),
        layout := (if negotiated_layout (ctx_channel_layout (codecContext s)) = AV_CH_LAYOUT_MONO
                   then Layout_mono else Layout_stereo),
        align := False\<rparr>"
  by (simp only: AudioStream_caps_def Let_def contains_sampleFormats value_layout_stereo key_layout
      negotiated_format_def [symmetric])

lemma example_sync:
  "convert_sync libs_example stream_example frame_example =
     (stream_example\<lparr>audioDiffCum := qadd (convert_diff libs_example stream_example frame_example)
          (qmul (audioDiffAvgCoef stream_example) (audioDiffCum stream_example)),
        audioDiffAvgCount := audioDiffAvgCount stream_example + 1\<rparr>,
      [], nb_samples frame_example, True)"
proof -
  have h1: "\<not> qIsNaN (convert_diff libs_example stream_example frame_example)"
    by (simp add: example_diff qIsNaN_def)
  have h2: "qlt (qAbs (convert_diff libs_example stream_example frame_example)) AV_NOSYNC_THRESHOLD"
    by (simp add: example_diff AV_NOSYNC_THRESHOLD_def)
  have h3: "audioDiffAvgCount stream_example < AUDIO_DIFF_AVG_NB"
    by (simp add: stream_example_def AudioStream_new_def AUDIO_DIFF_AVG_NB_def)
  show ?thesis by (rule convert_sync_insync [OF h1 h2 h3])
qed

lemma example_succeeds: "\<not> convert_call_fails libs_example stream_example frame_example"
  by (simp add: convert_call_fails_def example_sync) (simp add: libs_example_def)

lemma example_formats:
  "av_get_packed_sample_fmt libs_example fmt = fmt"
  "format frame_surround = AV_SAMPLE_FMT_OTHER 7" "channel_layout frame_surround = 63"
  "format frame_example = AV_SAMPLE_FMT_S16" "channel_layout frame_example = AV_CH_LAYOUT_STEREO"
  "sample_rate frame_example = 48000"
  "sample_fmt (codecContext stream_example) = AV_SAMPLE_FMT_S16"
  "ctx_channel_layout (codecContext stream_example) = AV_CH_LAYOUT_STEREO"
  "ctx_sample_rate (codecContext stream_example) = 48000"
  "samples (AkAudioCaps_new libs_example) = 0"
  by (simp_all add: libs_example_def frame_surround_def frame_example_def stream_example_def
      AudioStream_new_def)

subsection \<open>Scenario C\<close>

text \<open>
  Claim C1. From a stream as constructed, 25 frames of 1024 samples at 48000 Hz that are
  each 0.1 s ahead of the clock: the first 20 calls of convert request no compensation and
  count the measurements up to 20; each of the last 5 requests a compensation of 102
  samples over \<open>wantedSamples\<close> = 1126, which is 1024 + 4800 bounded by 1024 * 90 / 100 = 921
  and 1024 * 110 / 100 = 1126 in integer arithmetic. The claim's 1127 is not what is
  requested: the counterexample is the 21st frame.
\<close>

theorem scenario_C:
  assumes "length fs = 25"
    and "\<forall>cf\<in>set fs. nb_samples (snd cf) = 1024 \<and> sample_rate (snd cf) = 48000 \<and>
           convert_diff ext ((AudioStream_new cc tb idx sid clk cd)\<lparr>globalClock := fst cf\<rparr>) (snd cf)
             = Fin (1 / 10)"
  shows "map (\<lambda>out. compensations (fst out))
           (snd (convert_frames ext (AudioStream_new cc tb idx sid clk cd) fs)) =
         replicate 20 [] @ replicate 5 [(102, 1126)] \<and>
         (\<forall>j\<le>25. audioDiffAvgCount
            (fst (convert_frames ext (AudioStream_new cc tb idx sid clk cd) (take j fs))) =
            min (int j) 20)"
proof -
  let ?s = "AudioStream_new cc tb idx sid clk cd"
  have frames: "\<forall>cf\<in>set fs. nb_samples (snd cf) = 1024 \<and> sample_rate (snd cf) = 48000 \<and>
      qsub (qmul (qreal_of_int (pts (snd cf))) (AkFrac_value ext (timeBase ?s))) (fst cf) = Fin (1 / 10)"
    using assms(2) by (simp add: convert_diff_clock)
  have run: "steady (1 / 10) (0 + length gs) (fst (convert_frames ext ?s gs)) \<and>
      map (\<lambda>out. compensations (fst out)) (snd (convert_frames ext ?s gs)) =
      map (\<lambda>j. if 0 + j < 20 then [] else [(int32 (1126 - 1024), 1126)]) [0..<length gs]"
    if "set gs \<subseteq> set fs" for gs
  proof (rule constant_diff_run [OF steady_new])
    show "\<forall>cf\<in>set gs. nb_samples (snd cf) = 1024 \<and> sample_rate (snd cf) = 48000 \<and>
        qsub (qmul (qreal_of_int (pts (snd cf))) (AkFrac_value ext (timeBase ?s))) (fst cf) = Fin (1 / 10)"
      using frames that by blast
    show "convert_correction (Fin (1 / 10)) f = 1126"
      if "nb_samples f = 1024" and "sample_rate f = 48000" for f
      using that by (rule correction_1024_up)
  qed simp_all
  have "map (\<lambda>out. compensations (fst out)) (snd (convert_frames ext ?s fs)) =
      replicate 20 [] @ replicate 5 [(102, 1126)]"
    using run [of fs] by (simp only: assms(1) compensation_pattern)
  moreover have "audioDiffAvgCount (fst (convert_frames ext ?s (take j fs))) = min (int j) 20"
    if "j \<le> 25" for j
  proof -
    have "steady (1 / 10) (0 + length (take j fs)) (fst (convert_frames ext ?s (take j fs)))"
      using run [of "take j fs"] by (simp add: set_take_subset)
    then show ?thesis
      using that assms(1) by (simp add: steady_count min_def)
  qed
  ultimately show ?thesis by blast
qed

theorem scenario_C_witness:
  "length (replicate 25 (Fin 0, frame_example)) = 25 \<and>
   map (\<lambda>out. compensations (fst out))
     (snd (convert_frames libs_example stream_example (replicate 25 (Fin 0, frame_example)))) =
   replicate 20 [] @ replicate 5 [(102, 1126)] \<and>
   audioDiffAvgCount
     (fst (convert_frames libs_example stream_example (replicate 20 (Fin 0, frame_example)))) = 20"
proof -
  have len: "length (replicate 25 (Fin 0, frame_example)) = 25" by simp
  have tk: "take 20 (replicate 25 (Fin 0, frame_example)) = replicate 20 (Fin 0, frame_example)"
    by simp
  from scenario_C [OF len, of libs_example _ "(1, 10)" 0 0 "Fin 0" "Fin 0"]
    example_frames [of 25, unfolded stream_example_def]
  have "map (\<lambda>out. compensations (fst out))
     (snd (convert_frames libs_example stream_example (replicate 25 (Fin 0, frame_example)))) =
   replicate 20 [] @ replicate 5 [(102, 1126)] \<and>
   (\<forall>j\<le>25. audioDiffAvgCount
     (fst (convert_frames libs_example stream_example (take j (replicate 25 (Fin 0, frame_example))))) =
     min (int j) 20)"
    unfolding stream_example_def by blast
  then have "map (\<lambda>out. compensations (fst out))
     (snd (convert_frames libs_example stream_example (replicate 25 (Fin 0, frame_example)))) =
   replicate 20 [] @ replicate 5 [(102, 1126)]"
    and "audioDiffAvgCount
     (fst (convert_frames libs_example stream_example (take 20 (replicate 25 (Fin 0, frame_example))))) =
     min (int 20) 20"
    by simp_all
  then show ?thesis by (simp only: tk len) simp
qed

theorem scenario_C_counterexample:
  "map snd (compensations (fst (snd (convert_frames libs_example stream_example
      (replicate 25 (Fin 0, frame_example))) ! 20))) = [1126] \<and>
   map snd (compensations (fst (snd (convert_frames libs_example stream_example
      (replicate 25 (Fin 0, frame_example))) ! 20))) \<noteq> [1127]"
proof -
  let ?outs = "snd (convert_frames libs_example stream_example (replicate 25 (Fin 0, frame_example)))"
  have "map (\<lambda>out. compensations (fst out)) ?outs = replicate 20 [] @ replicate 5 [(102, 1126)]"
    using example_run [of 25] by (simp only: compensation_pattern)
  then have "map (\<lambda>out. compensations (fst out)) ?outs ! 20 = [(102, 1126)]"
    by (simp add: nth_append)
  moreover have "map (\<lambda>out. compensations (fst out)) ?outs ! 20 = compensations (fst (?outs ! 20))"
    by (rule nth_map) (simp add: convert_frames_length)
  ultimately have "compensations (fst (?outs ! 20)) = [(102, 1126)]" by simp
  then show ?thesis by simp
qed

subsection \<open>The bounds of the correction\<close>

text \<open>
  Claim C2. For a frame of a non-negative number of samples whose percent products fit
  an \<open>int\<close>, \<open>wantedSamples\<close> lies between \<open>nb_samples * 90 / 100\<close> and
  \<open>nb_samples * 110 / 100\<close>, both rounded down, whether a compensation is requested or
  not: it is at most 1.1 times the frame's count and more than 0.9 times the count minus
  one. The lower bound 0.9 times the count itself fails: after 20 frames 0.1 s behind the
  clock, a frame of 1024 samples is given 921 samples, below 921.6.
\<close>

theorem wantedSamples_ten_percent:
  assumes "0 \<le> nb_samples f" and "nb_samples f * 110 \<le> INT_MAX"
  shows "nb_samples f * 90 div 100 \<le> convert_wantedSamples ext s f \<and>
         convert_wantedSamples ext s f \<le> nb_samples f * 110 div 100 \<and>
         9 / 10 * real_of_int (nb_samples f) - 1 < real_of_int (convert_wantedSamples ext s f) \<and>
         real_of_int (convert_wantedSamples ext s f) \<le> 11 / 10 * real_of_int (nb_samples f)"
proof -
  have own: "nb_samples f * 90 div 100 \<le> nb_samples f"
    "nb_samples f \<le> nb_samples f * 110 div 100"
    using assms(1) by linarith+
  have lo: "nb_samples f * 90 div 100 \<le> convert_wantedSamples ext s f"
    and hi: "convert_wantedSamples ext s f \<le> nb_samples f * 110 div 100"
    using convert_wantedSamples_cases [of ext s f] convert_correction_bounds [OF assms] own
    by auto
  let ?w = "convert_wantedSamples ext s f"
  have "90 * nb_samples f < 100 * ?w + 100" and "100 * ?w \<le> 110 * nb_samples f"
    using lo hi by linarith+
  then have "real_of_int (90 * nb_samples f) < real_of_int (100 * ?w + 100)"
    and "real_of_int (100 * ?w) \<le> real_of_int (110 * nb_samples f)"
    by (simp_all only: of_int_less_iff of_int_le_iff)
  then have "9 / 10 * real_of_int (nb_samples f) - 1 < real_of_int ?w"
    and "real_of_int ?w \<le> 11 / 10 * real_of_int (nb_samples f)"
    by simp_all
  with lo hi show ?thesis by blast
qed

theorem wantedSamples_ten_percent_witness:
  "0 \<le> nb_samples frame_behind \<and> nb_samples frame_behind * 110 \<le> INT_MAX \<and>
   1024 * 90 div 100 \<le> convert_wantedSamples libs_example stream_behind frame_behind \<and>
   convert_wantedSamples libs_example stream_behind frame_behind \<le> 1024 * 110 div 100"
proof -
  have nb: "nb_samples frame_behind = 1024"
    by (simp add: frame_behind_def frame_example_def)
  have h1: "0 \<le> nb_samples frame_behind" and h2: "nb_samples frame_behind * 110 \<le> INT_MAX"
    by (simp_all add: nb INT_MAX_def)
  from wantedSamples_ten_percent [OF h1 h2, of libs_example stream_behind] h1 h2
  show ?thesis by (simp add: nb)
qed

theorem wantedSamples_ten_percent_counterexample:
  "\<not> (9 / 10 * real_of_int (nb_samples frame_behind)
      \<le> real_of_int (convert_wantedSamples libs_example stream_behind frame_behind))"
  by (simp add: behind_wanted) (simp add: frame_behind_def frame_example_def)

subsection \<open>A NaN difference\<close>

text \<open>
  Claim C3. When the difference between the frame's time and the clock is NaN, convert
  sets \<open>audioDiffAvgCount\<close> to 0 and \<open>audioDiffCum\<close> to 0.0, does not call
  \<open>setClock\<close> (the clock keeps its value), and records NaN in \<open>m_clockDiff\<close> as for
  any other frame. When the difference is a number of absolute value at least 10.0, the
  clock is written, once, with the frame's time.
\<close>

theorem convert_nan_diff:
  "(qIsNaN (convert_diff ext s f) \<longrightarrow>
      audioDiffAvgCount (fst (convert ext s f)) = 0 \<and>
      audioDiffCum (fst (convert ext s f)) = Fin 0 \<and>
      clock_writes (fst (snd (convert ext s f))) = [] \<and>
      globalClock (fst (convert ext s f)) = globalClock s \<and>
      m_clockDiff (fst (convert ext s f)) = NaN) \<and>
   (\<not> qIsNaN (convert_diff ext s f) \<and> qge (qAbs (convert_diff ext s f)) AV_NOSYNC_THRESHOLD \<longrightarrow>
      clock_writes (fst (snd (convert ext s f))) = [convert_pts ext s f] \<and>
      globalClock (fst (convert ext s f)) = convert_pts ext s f \<and>
      m_clockDiff (fst (convert ext s f)) = convert_diff ext s f)"
proof (intro conjI impI)
  assume nan: "qIsNaN (convert_diff ext s f)"
  then have d: "convert_diff ext s f = NaN" by (simp add: qIsNaN_def)
  note sync = convert_sync_reset [of ext s f, OF disjI1, OF nan]
  show "audioDiffAvgCount (fst (convert ext s f)) = 0"
    by (simp add: convert_split sync Let_def convert_resample_sync_state convert_clock_state)
  show "audioDiffCum (fst (convert ext s f)) = Fin 0"
    by (simp add: convert_split sync Let_def convert_resample_sync_state convert_clock_state)
  show "clock_writes (fst (snd (convert ext s f))) = []"
    by (simp add: convert_split sync Let_def clock_writes_append convert_resample_quiet
        convert_clock_events d qge_NaN)
  show "globalClock (fst (convert ext s f)) = globalClock s"
    by (simp add: convert_split sync Let_def convert_resample_sync_state convert_clock_events
        d qge_NaN)
  show "m_clockDiff (fst (convert ext s f)) = NaN"
    by (simp add: convert_split sync Let_def convert_resample_sync_state convert_clock_state d)
next
  assume big: "\<not> qIsNaN (convert_diff ext s f) \<and> qge (qAbs (convert_diff ext s f)) AV_NOSYNC_THRESHOLD"
  then have far: "\<not> qlt (qAbs (convert_diff ext s f)) AV_NOSYNC_THRESHOLD"
    by (simp add: qge_def)
  note sync = convert_sync_reset [of ext s f, OF disjI2, OF far]
  show "clock_writes (fst (snd (convert ext s f))) = [convert_pts ext s f]"
    using big
    by (simp add: convert_split sync Let_def clock_writes_append convert_resample_quiet
        convert_clock_events)
  show "globalClock (fst (convert ext s f)) = convert_pts ext s f"
    using big
    by (simp add: convert_split sync Let_def convert_resample_sync_state convert_clock_events)
  show "m_clockDiff (fst (convert ext s f)) = convert_diff ext s f"
    by (simp add: convert_split sync Let_def convert_resample_sync_state convert_clock_state)
qed

theorem convert_nan_diff_witness:
  "qIsNaN (convert_diff libs_example stream_nan_clock frame_example) \<and>
   audioDiffAvgCount stream_nan_clock = 7 \<and>
   audioDiffAvgCount (fst (convert libs_example stream_nan_clock frame_example)) = 0 \<and>
   audioDiffCum (fst (convert libs_example stream_nan_clock frame_example)) = Fin 0 \<and>
   clock_writes (fst (snd (convert libs_example stream_nan_clock frame_example))) = [] \<and>
   globalClock (fst (convert libs_example stream_nan_clock frame_example)) = NaN \<and>
   m_clockDiff (fst (convert libs_example stream_nan_clock frame_example)) = NaN \<and>
   \<not> qIsNaN (convert_diff libs_example stream_scenario_B frame_scenario_B) \<and>
   qge (qAbs (convert_diff libs_example stream_scenario_B frame_scenario_B)) AV_NOSYNC_THRESHOLD \<and>
   clock_writes (fst (snd (convert libs_example stream_scenario_B frame_scenario_B))) = [Fin 100]"
proof -
  have h1: "qIsNaN (convert_diff libs_example stream_nan_clock frame_example)"
    by (simp add: nan_clock_diff qIsNaN_def)
  have h2: "\<not> qIsNaN (convert_diff libs_example stream_scenario_B frame_scenario_B) \<and>
      qge (qAbs (convert_diff libs_example stream_scenario_B frame_scenario_B)) AV_NOSYNC_THRESHOLD"
    by (simp add: scenario_B_diff AV_NOSYNC_THRESHOLD_def qge_def qIsNaN_def)
  have before: "audioDiffAvgCount stream_nan_clock = 7" "globalClock stream_nan_clock = NaN"
    by (simp_all add: stream_nan_clock_def stream_scenario_B_def stream_example_def
        AudioStream_new_def)
  from convert_nan_diff [of libs_example stream_nan_clock frame_example]
    convert_nan_diff [of libs_example stream_scenario_B frame_scenario_B] h1 h2 before
  show ?thesis
    by (simp add: scenario_B_pts)
qed

subsection \<open>Too few measurements\<close>

text \<open>
  Claim C4. When the difference is a number of absolute value below 10.0 and fewer than
  20 measurements are counted, convert asks the resampler for no compensation,
  \<open>wantedSamples\<close> stays the frame's \<open>nb_samples\<close>, and \<open>audioDiffAvgCount\<close> grows
  by exactly 1.
\<close>

theorem convert_few_measurements:
  assumes "\<not> qIsNaN (convert_diff ext s f)"
    and "qlt (qAbs (convert_diff ext s f)) AV_NOSYNC_THRESHOLD"
    and "audioDiffAvgCount s < AUDIO_DIFF_AVG_NB"
  shows "compensations (fst (snd (convert ext s f))) = [] \<and>
         convert_wantedSamples ext s f = nb_samples f \<and>
         audioDiffAvgCount (fst (convert ext s f)) = audioDiffAvgCount s + 1"
proof -
  note sync = convert_sync_insync [OF assms]
  have "compensations (fst (snd (convert ext s f))) = []"
    by (simp add: convert_split sync Let_def compensations_append convert_clock_events
        convert_resample_quiet)
  moreover have "convert_wantedSamples ext s f = nb_samples f"
    by (simp add: convert_wantedSamples_def sync)
  moreover have "audioDiffAvgCount (fst (convert ext s f)) = audioDiffAvgCount s + 1"
    by (simp add: convert_split sync Let_def convert_resample_sync_state convert_clock_state)
  ultimately show ?thesis by blast
qed

theorem convert_few_measurements_witness:
  "\<not> qIsNaN (convert_diff libs_example stream_example frame_example) \<and>
   qlt (qAbs (convert_diff libs_example stream_example frame_example)) AV_NOSYNC_THRESHOLD \<and>
   audioDiffAvgCount stream_example < AUDIO_DIFF_AVG_NB \<and>
   compensations (fst (snd (convert libs_example stream_example frame_example))) = [] \<and>
   convert_wantedSamples libs_example stream_example frame_example = 1024 \<and>
   audioDiffAvgCount (fst (convert libs_example stream_example frame_example)) = 1"
proof -
  have h1: "\<not> qIsNaN (convert_diff libs_example stream_example frame_example)"
    by (simp add: example_diff qIsNaN_def)
  have h2: "qlt (qAbs (convert_diff libs_example stream_example frame_example)) AV_NOSYNC_THRESHOLD"
    by (simp add: example_diff AV_NOSYNC_THRESHOLD_def)
  have h3: "audioDiffAvgCount stream_example < AUDIO_DIFF_AVG_NB"
    by (simp add: stream_example_def AudioStream_new_def AUDIO_DIFF_AVG_NB_def)
  have n: "nb_samples frame_example = 1024" "audioDiffAvgCount stream_example = 0"
    by (simp_all add: frame_example_def stream_example_def AudioStream_new_def)
  from convert_few_measurements [OF h1 h2 h3] h1 h2 h3 show ?thesis
    by (simp add: n)
qed

subsection \<open>A difference beyond the threshold\<close>

text \<open>
  Claim C5. When the difference is a number of absolute value at least 10.0, convert
  resets the filter (\<open>audioDiffCum\<close> to 0.0, \<open>audioDiffAvgCount\<close> to 0) and sets the
  clock to the frame's time. The witness is Scenario B: a frame at 100.0 s, the clock at 0.0.
\<close>

theorem convert_nosync_threshold:
  assumes "\<not> qIsNaN (convert_diff ext s f)"
    and "qge (qAbs (convert_diff ext s f)) AV_NOSYNC_THRESHOLD"
  shows "audioDiffCum (fst (convert ext s f)) = Fin 0 \<and>
         audioDiffAvgCount (fst (convert ext s f)) = 0 \<and>
         clock_writes (fst (snd (convert ext s f))) = [convert_pts ext s f] \<and>
         globalClock (fst (convert ext s f)) = convert_pts ext s f"
proof -
  from assms(2) have far: "\<not> qlt (qAbs (convert_diff ext s f)) AV_NOSYNC_THRESHOLD"
    by (simp add: qge_def)
  note sync = convert_sync_reset [of ext s f, OF disjI2, OF far]
  have "audioDiffCum (fst (convert ext s f)) = Fin 0"
    by (simp add: convert_split sync Let_def convert_resample_sync_state convert_clock_state)
  moreover have "audioDiffAvgCount (fst (convert ext s f)) = 0"
    by (simp add: convert_split sync Let_def convert_resample_sync_state convert_clock_state)
  moreover have "clock_writes (fst (snd (convert ext s f))) = [convert_pts ext s f]"
    using assms(2)
    by (simp add: convert_split sync Let_def clock_writes_append convert_resample_quiet
        convert_clock_events)
  moreover have "globalClock (fst (convert ext s f)) = convert_pts ext s f"
    using assms(2)
    by (simp add: convert_split sync Let_def convert_resample_sync_state convert_clock_events)
  ultimately show ?thesis by blast
qed

theorem convert_nosync_threshold_witness:
  "\<not> qIsNaN (convert_diff libs_example stream_scenario_B frame_scenario_B) \<and>
   qge (qAbs (convert_diff libs_example stream_scenario_B frame_scenario_B)) AV_NOSYNC_THRESHOLD \<and>
   audioDiffCum stream_scenario_B = Fin (1 / 2) \<and>
   audioDiffAvgCount stream_scenario_B = 7 \<and>
   globalClock stream_scenario_B = Fin 0 \<and>
   audioDiffCum (fst (convert libs_example stream_scenario_B frame_scenario_B)) = Fin 0 \<and>
   audioDiffAvgCount (fst (convert libs_example stream_scenario_B frame_scenario_B)) = 0 \<and>
   clock_writes (fst (snd (convert libs_example stream_scenario_B frame_scenario_B))) = [Fin 100] \<and>
   globalClock (fst (convert libs_example stream_scenario_B frame_scenario_B)) = Fin 100"
proof -
  have h1: "\<not> qIsNaN (convert_diff libs_example stream_scenario_B frame_scenario_B)"
    by (simp add: scenario_B_diff qIsNaN_def)
  have h2: "qge (qAbs (convert_diff libs_example stream_scenario_B frame_scenario_B)) AV_NOSYNC_THRESHOLD"
    by (simp add: scenario_B_diff AV_NOSYNC_THRESHOLD_def qge_def)
  have before: "audioDiffCum stream_scenario_B = Fin (1 / 2)"
    "audioDiffAvgCount stream_scenario_B = 7" "globalClock stream_scenario_B = Fin 0"
    by (simp_all add: stream_scenario_B_def stream_example_def AudioStream_new_def)
  from convert_nosync_threshold [OF h1 h2] h1 h2 before show ?thesis
    by (simp add: scenario_B_pts)
qed

subsection \<open>Format and layout negotiation\<close>

text \<open>
  Claim C6. The output format of convert is the packed equivalent of the frame's format
  if that is one of U8, S16, S32 and FLT, and FLT otherwise; the output layout is the
  frame's layout if that is mono or stereo, and stereo otherwise. The resampler is set up
  with this layout and format, and a packet carries their names. \<open>caps\<close> applies the
  same rule to the format and layout of the codec context: when these are the frame's, a
  packet's caps are the caps that \<open>caps\<close> returns, the sample count apart.
\<close>

theorem negotiation_round_trip:
  "convert_oFormat ext f = negotiated_format (av_get_packed_sample_fmt ext (format f)) \<and>
   convert_oLayout f = negotiated_layout (channel_layout f) \<and>
   [caps_format (AudioStream_caps ext s)] =
     format_name (negotiated_format (av_get_packed_sample_fmt ext (sample_fmt (codecContext s)))) \<and>
   layout (AudioStream_caps ext s) =
     (if negotiated_layout (ctx_channel_layout (codecContext s)) = AV_CH_LAYOUT_MONO
      then Layout_mono else Layout_stereo) \<and>
   caps_channels (AudioStream_caps ext s) =
     av_get_channel_layout_nb_channels ext (negotiated_layout (ctx_channel_layout (codecContext s))) \<and>
   map (\<lambda>(ol, ofmt, orate, il, ifmt, irate). (ol, ofmt)) (setups (fst (snd (convert ext s f)))) =
     (if snd (snd (snd (convert_sync ext s f)))
      then [(negotiated_layout (channel_layout f),
             negotiated_format (av_get_packed_sample_fmt ext (format f)))]
      else []) \<and>
   map (\<lambda>c. [caps_format c]) (packet_caps_of (snd (snd (convert ext s f)))) =
     (if convert_call_fails ext s f then []
      else [format_name (negotiated_format (av_get_packed_sample_fmt ext (format f)))]) \<and>
   map layout (packet_caps_of (snd (snd (convert ext s f)))) =
     (if convert_call_fails ext s f then []
      else [if negotiated_layout (channel_layout f) = AV_CH_LAYOUT_MONO
            then Layout_mono else Layout_stereo]) \<and>
   (sample_fmt (codecContext s) = format f \<and>
    ctx_channel_layout (codecContext s) = channel_layout f \<and>
    ctx_sample_rate (codecContext s) = sample_rate f \<longrightarrow>
      map (\<lambda>c. c\<lparr>samples := samples (AkAudioCaps_new ext)\<rparr>)
        (packet_caps_of (snd (snd (convert ext s f)))) =
      (if convert_call_fails ext s f then [] else [AudioStream_caps ext s]))"
proof (intro conjI impI)
  show "convert_oFormat ext f = negotiated_format (av_get_packed_sample_fmt ext (format f))"
    by (rule convert_oFormat_negotiated)
  show "convert_oLayout f = negotiated_layout (channel_layout f)"
    by (rule convert_oLayout_negotiated)
  show "[caps_format (AudioStream_caps ext s)] =
     format_name (negotiated_format (av_get_packed_sample_fmt ext (sample_fmt (codecContext s))))"
    by (simp add: caps_negotiated value_negotiated_format)
  show "layout (AudioStream_caps ext s) =
     (if negotiated_layout (ctx_channel_layout (codecContext s)) = AV_CH_LAYOUT_MONO
      then Layout_mono else Layout_stereo)"
    by (simp add: caps_negotiated)
  show "caps_channels (AudioStream_caps ext s) =
     av_get_channel_layout_nb_channels ext (negotiated_layout (ctx_channel_layout (codecContext s)))"
    by (simp add: caps_negotiated)
  show "map (\<lambda>(ol, ofmt, orate, il, ifmt, irate). (ol, ofmt)) (setups (fst (snd (convert ext s f)))) =
     (if snd (snd (snd (convert_sync ext s f)))
      then [(negotiated_layout (channel_layout f),
             negotiated_format (av_get_packed_sample_fmt ext (format f)))]
      else [])"
    by (simp add: convert_setups convert_oFormat_negotiated convert_oLayout_negotiated)
  show "map (\<lambda>c. [caps_format c]) (packet_caps_of (snd (snd (convert ext s f)))) =
     (if convert_call_fails ext s f then []
      else [format_name (negotiated_format (av_get_packed_sample_fmt ext (format f)))])"
    by (simp add: convert_packet_fields convert_oFormat_negotiated value_negotiated_format)
  show "map layout (packet_caps_of (snd (snd (convert ext s f)))) =
     (if convert_call_fails ext s f then []
      else [if negotiated_layout (channel_layout f) = AV_CH_LAYOUT_MONO
            then Layout_mono else Layout_stereo])"
    by (simp add: convert_packet_fields convert_oLayout_negotiated value_negotiated_layout)
  show "map (\<lambda>c. c\<lparr>samples := samples (AkAudioCaps_new ext)\<rparr>)
        (packet_caps_of (snd (snd (convert ext s f)))) =
      (if convert_call_fails ext s f then [] else [AudioStream_caps ext s])"
    if "sample_fmt (codecContext s) = format f \<and>
        ctx_channel_layout (codecContext s) = channel_layout f \<and>
        ctx_sample_rate (codecContext s) = sample_rate f"
    using that
    by (simp add: convert_packet_caps caps_negotiated convert_oFormat_negotiated
        convert_oLayout_negotiated value_negotiated_layout)
qed

theorem negotiation_round_trip_witness:
  "convert_oFormat libs_example frame_surround = AV_SAMPLE_FMT_FLT \<and>
   convert_oLayout frame_surround = AV_CH_LAYOUT_STEREO \<and>
   convert_oFormat libs_example frame_example = AV_SAMPLE_FMT_S16 \<and>
   convert_oLayout frame_example = AV_CH_LAYOUT_STEREO \<and>
   caps_format (AudioStream_caps libs_example stream_example) = SampleFormat_s16 \<and>
   layout (AudioStream_caps libs_example stream_example) = Layout_stereo \<and>
   sample_fmt (codecContext stream_example) = format frame_example \<and>
   ctx_channel_layout (codecContext stream_example) = channel_layout frame_example \<and>
   ctx_sample_rate (codecContext stream_example) = sample_rate frame_example \<and>
   map (\<lambda>c. c\<lparr>samples := 0\<rparr>)
     (packet_caps_of (snd (snd (convert libs_example stream_example frame_example)))) =
   [AudioStream_caps libs_example stream_example]"
proof -
  have n: "negotiated_format (AV_SAMPLE_FMT_OTHER 7) = AV_SAMPLE_FMT_FLT"
    "negotiated_format AV_SAMPLE_FMT_S16 = AV_SAMPLE_FMT_S16"
    "negotiated_layout 63 = AV_CH_LAYOUT_STEREO"
    "negotiated_layout AV_CH_LAYOUT_STEREO = AV_CH_LAYOUT_STEREO"
    "AV_CH_LAYOUT_STEREO \<noteq> AV_CH_LAYOUT_MONO"
    by (simp_all add: negotiated_format_def negotiated_layout_def AV_CH_LAYOUT_MONO_def
        AV_CH_LAYOUT_STEREO_def)
  from negotiation_round_trip [of libs_example frame_surround stream_example]
  have a: "convert_oFormat libs_example frame_surround = AV_SAMPLE_FMT_FLT"
    "convert_oLayout frame_surround = AV_CH_LAYOUT_STEREO"
    by (simp_all add: example_formats n)
  from negotiation_round_trip [of libs_example frame_example stream_example]
  have b: "convert_oFormat libs_example frame_example = AV_SAMPLE_FMT_S16"
    "convert_oLayout frame_example = AV_CH_LAYOUT_STEREO"
    "caps_format (AudioStream_caps libs_example stream_example) = SampleFormat_s16"
    "layout (AudioStream_caps libs_example stream_example) = Layout_stereo"
    "map (\<lambda>c. c\<lparr>samples := 0\<rparr>)
       (packet_caps_of (snd (snd (convert libs_example stream_example frame_example)))) =
     [AudioStream_caps libs_example stream_example]"
    by (simp_all add: example_formats n example_succeeds)
  from a b show ?thesis by (simp add: example_formats)
qed

subsection \<open>A failed conversion\<close>

text \<open>
  Claim C7. When a call of the resampler fails for a frame (the compensation is rejected,
  the set-up gives no resampler, the output frame cannot be filled or the conversion
  fails), convert returns the empty packet \<open>AkPacket()\<close>. \<open>processData\<close> sends this
  empty packet with \<open>oStream\<close> and raises \<open>frameSent\<close> all the same, once each, and
  moves \<open>m_pts\<close> on as for any frame. That nothing is sent and no notification raised
  is not what the code does: the counterexample is a frame whose conversion fails.
\<close>

theorem failed_conversion:
  assumes "convert_call_fails ext s (processData_pts s frame)"
  shows "snd (snd (convert ext s (processData_pts s frame))) = AkPacket_empty \<and>
         emitted (snd (processData ext s frame)) = [AkPacket_empty] \<and>
         frames_sent (snd (processData ext s frame)) = 1 \<and>
         m_pts (fst (processData ext s frame)) =
           int64 (pts (processData_pts s frame) + nb_samples frame)"
proof -
  from assms have "snd (snd (convert ext s (processData_pts s frame))) = AkPacket_empty"
    by (simp add: convert_packet_empty)
  moreover from this have "emitted (snd (processData ext s frame)) = [AkPacket_empty]"
    by (simp add: processData_emitted)
  moreover have "frames_sent (snd (processData ext s frame)) = 1"
    by (rule processData_emitted)
  moreover have "m_pts (fst (processData ext s frame)) =
      int64 (pts (processData_pts s frame) + nb_samples frame)"
    by (simp add: processData_split)
  ultimately show ?thesis by blast
qed

theorem failed_conversion_witness:
  "convert_call_fails libs_failing stream_example (processData_pts stream_example frame_example) \<and>
   emitted (snd (processData libs_failing stream_example frame_example)) = [AkPacket_empty] \<and>
   frames_sent (snd (processData libs_failing stream_example frame_example)) = 1 \<and>
   m_pts (fst (processData libs_failing stream_example frame_example)) = 1025"
proof -
  have h: "convert_call_fails libs_failing stream_example (processData_pts stream_example frame_example)"
    by (simp add: example_pts failing_fails)
  have "int64 (pts (processData_pts stream_example frame_example) + nb_samples frame_example) = 1025"
    by (simp add: example_pts) (simp add: frame_example_def int64_id)
  with failed_conversion [OF h] h show ?thesis by simp
qed

theorem failed_conversion_counterexample:
  "convert_call_fails libs_failing stream_example (processData_pts stream_example frame_example) \<and>
   \<not> (emitted (snd (processData libs_failing stream_example frame_example)) = [] \<and>
      frames_sent (snd (processData libs_failing stream_example frame_example)) = 0)"
  by (simp add: example_pts failing_fails processData_emitted)

subsection \<open>Time stamp repair\<close>

text \<open>
  Claim C8. The constructor sets \<open>m_pts\<close> to 0. \<open>processData\<close> converts the frame
  with its own time stamp, or with \<open>m_pts\<close> when it has none (\<open>AV_NOPTS_VALUE\<close>), and
  then sets \<open>m_pts\<close> to the time stamp used plus the frame's number of samples, in
  64-bit arithmetic, whatever convert did.
\<close>

theorem timestamp_repair:
  "m_pts (AudioStream_new cc tb idx sid clk cd) = 0 \<and>
   pts (processData_pts s frame) = (if pts frame = AV_NOPTS_VALUE then m_pts s else pts frame) \<and>
   snd (processData ext s frame) =
     fst (snd (convert ext s (processData_pts s frame)))
     @ [OStream (snd (snd (convert ext s (processData_pts s frame)))), FrameSent] \<and>
   m_pts (fst (processData ext s frame)) =
     int64 (pts (processData_pts s frame) + nb_samples frame) \<and>
   (- (2 ^ 63) \<le> pts (processData_pts s frame) + nb_samples frame \<and>
    pts (processData_pts s frame) + nb_samples frame < 2 ^ 63 \<longrightarrow>
      m_pts (fst (processData ext s frame)) = pts (processData_pts s frame) + nb_samples frame)"
proof (intro conjI impI)
  show "m_pts (AudioStream_new cc tb idx sid clk cd) = 0"
    by (simp add: AudioStream_new_def)
  show "pts (processData_pts s frame) = (if pts frame = AV_NOPTS_VALUE then m_pts s else pts frame)"
    by (simp add: processData_pts_def)
  show "snd (processData ext s frame) =
     fst (snd (convert ext s (processData_pts s frame)))
     @ [OStream (snd (snd (convert ext s (processData_pts s frame)))), FrameSent]"
    by (simp add: processData_split)
  show m: "m_pts (fst (processData ext s frame)) =
     int64 (pts (processData_pts s frame) + nb_samples frame)"
    by (simp add: processData_split)
  show "m_pts (fst (processData ext s frame)) = pts (processData_pts s frame) + nb_samples frame"
    if "- (2 ^ 63) \<le> pts (processData_pts s frame) + nb_samples frame \<and>
        pts (processData_pts s frame) + nb_samples frame < 2 ^ 63"
    using that by (simp only: m int64_id)
qed

theorem timestamp_repair_witness:
  "pts frame_nopts = AV_NOPTS_VALUE \<and>
   m_pts stream_example = 0 \<and>
   pts (processData_pts stream_example frame_nopts) = 0 \<and>
   m_pts (fst (processData libs_example stream_example frame_nopts)) = 1024 \<and>
   m_pts (fst (processData libs_failing (fst (processData libs_example stream_example frame_nopts))
      frame_nopts)) = 2048"
proof -
  let ?s = "fst (processData libs_example stream_example frame_nopts)"
  have f: "pts frame_nopts = AV_NOPTS_VALUE" "nb_samples frame_nopts = 1024"
    by (simp_all add: frame_nopts_def frame_example_def)
  have m0: "m_pts stream_example = 0"
    by (simp add: stream_example_def AudioStream_new_def)
  from timestamp_repair [where s = stream_example and frame = frame_nopts and ext = libs_example
      and cc = "codecContext stream_example" and tb = "(1, 10)" and idx = 0 and sid = 0
      and clk = "Fin 0" and cd = "Fin 0"]
  have p1: "pts (processData_pts stream_example frame_nopts) = 0"
    and m1: "m_pts ?s = 1024"
    by (simp_all add: f m0 int64_id)
  from timestamp_repair [where s = ?s and frame = frame_nopts and ext = libs_failing
      and cc = "codecContext stream_example" and tb = "(1, 10)" and idx = 0 and sid = 0
      and clk = "Fin 0" and cd = "Fin 0"]
  have "m_pts (fst (processData libs_failing ?s frame_nopts)) = 2048"
    by (simp add: f m1 int64_id)
  with f m0 p1 m1 show ?thesis by simp
qed

subsection \<open>The range of the measurement count\<close>

text \<open>
  Claim C9. After any sequence of frames, whatever the clock reads at each, the
  \<open>audioDiffAvgCount\<close> of a stream lies between 0 and 20. A call of convert adds 1 to it
  when the difference is a number below 10.0 in absolute value and the count is below 20,
  leaves it when the count has reached 20, and otherwise (a NaN or a difference of 10.0 or
  more) sets it to 0 together with \<open>audioDiffCum\<close>.
\<close>

theorem measurement_count_invariant:
  "0 \<le> audioDiffAvgCount (fst (convert_frames ext (AudioStream_new cc tb idx sid clk cd) fs)) \<and>
   audioDiffAvgCount (fst (convert_frames ext (AudioStream_new cc tb idx sid clk cd) fs)) \<le> 20 \<and>
   audioDiffAvgCount (fst (convert ext s f)) =
     (if \<not> qIsNaN (convert_diff ext s f) \<and> qlt (qAbs (convert_diff ext s f)) AV_NOSYNC_THRESHOLD
      then (if audioDiffAvgCount s < 20 then audioDiffAvgCount s + 1 else audioDiffAvgCount s)
      else 0) \<and>
   (qIsNaN (convert_diff ext s f) \<or> \<not> qlt (qAbs (convert_diff ext s f)) AV_NOSYNC_THRESHOLD
      \<longrightarrow> audioDiffCum (fst (convert ext s f)) = Fin 0)"
proof -
  have "0 \<le> audioDiffAvgCount (AudioStream_new cc tb idx sid clk cd) \<and>
      audioDiffAvgCount (AudioStream_new cc tb idx sid clk cd) \<le> 20"
    by (simp add: AudioStream_new_def)
  then have "0 \<le> audioDiffAvgCount (fst (convert_frames ext (AudioStream_new cc tb idx sid clk cd) fs)) \<and>
      audioDiffAvgCount (fst (convert_frames ext (AudioStream_new cc tb idx sid clk cd) fs)) \<le> 20"
    by (rule convert_frames_count_range)
  moreover note convert_count [of ext s f]
  moreover have "qIsNaN (convert_diff ext s f) \<or> \<not> qlt (qAbs (convert_diff ext s f)) AV_NOSYNC_THRESHOLD
      \<longrightarrow> audioDiffCum (fst (convert ext s f)) = Fin 0"
    using convert_cum_reset [of ext s f] by blast
  ultimately show ?thesis by blast
qed

theorem measurement_count_invariant_witness:
  "audioDiffAvgCount stream_behind = 20 \<and>
   audioDiffAvgCount (fst (convert libs_example stream_behind frame_behind)) = 20 \<and>
   audioDiffAvgCount stream_example = 0 \<and>
   audioDiffAvgCount (fst (convert libs_example stream_example frame_example)) = 1 \<and>
   audioDiffAvgCount stream_nan_clock = 7 \<and>
   qIsNaN (convert_diff libs_example stream_nan_clock frame_example) \<and>
   audioDiffAvgCount (fst (convert libs_example stream_nan_clock frame_example)) = 0 \<and>
   audioDiffCum (fst (convert libs_example stream_nan_clock frame_example)) = Fin 0"
proof -
  have c20: "audioDiffAvgCount stream_behind = 20"
    using steady_count [OF behind_run] by (simp add: stream_behind_def)
  have d20: "convert_diff libs_example stream_behind frame_behind = Fin (- 1 / 10)"
    using behind_frames [of 1]
    by (simp add: stream_behind_def convert_diff_clock convert_frames_timeBase)
  have c0: "audioDiffAvgCount stream_example = 0"
    by (simp add: stream_example_def AudioStream_new_def)
  have c7: "audioDiffAvgCount stream_nan_clock = 7"
    by (simp add: stream_nan_clock_def stream_scenario_B_def)
  have nan: "qIsNaN (convert_diff libs_example stream_nan_clock frame_example)"
    by (simp add: nan_clock_diff qIsNaN_def)
  from measurement_count_invariant [of libs_example _ _ _ _ _ _ "[]" stream_behind frame_behind]
  have "audioDiffAvgCount (fst (convert libs_example stream_behind frame_behind)) = 20"
    by (simp add: c20 d20 qIsNaN_def AV_NOSYNC_THRESHOLD_def)
  moreover
  from measurement_count_invariant [of libs_example _ _ _ _ _ _ "[]" stream_example frame_example]
  have "audioDiffAvgCount (fst (convert libs_example stream_example frame_example)) = 1"
    by (simp add: c0 example_diff qIsNaN_def AV_NOSYNC_THRESHOLD_def)
  moreover
  from measurement_count_invariant [of libs_example _ _ _ _ _ _ "[]" stream_nan_clock frame_example]
  have "audioDiffAvgCount (fst (convert libs_example stream_nan_clock frame_example)) = 0"
    and "audioDiffCum (fst (convert libs_example stream_nan_clock frame_example)) = Fin 0"
    using nan by simp_all
  ultimately show ?thesis using c20 c0 c7 nan by blast
qed

subsection \<open>The sample rate\<close>

text \<open>
  Claim C10. Every set-up of the resampler that convert makes has the frame's sample rate
  as output rate and as input rate, and the frame's layout and format as input; every
  audio packet that convert returns, and that \<open>processData\<close> sends, has the frame's
  sample rate in its caps.
\<close>

theorem sample_rate_kept:
  "map (\<lambda>(ol, ofmt, orate, il, ifmt, irate). (orate, il, ifmt, irate))
     (setups (fst (snd (convert ext s f)))) =
     (if snd (snd (snd (convert_sync ext s f)))
      then [(sample_rate f, channel_layout f, format f, sample_rate f)] else []) \<and>
   map rate (packet_caps_of (snd (snd (convert ext s f)))) =
     (if convert_call_fails ext s f then [] else [sample_rate f]) \<and>
   map (\<lambda>p. map rate (packet_caps_of p)) (emitted (snd (processData ext s frame))) =
     [if convert_call_fails ext s (processData_pts s frame) then [] else [sample_rate frame]]"
proof (intro conjI)
  show "map (\<lambda>(ol, ofmt, orate, il, ifmt, irate). (orate, il, ifmt, irate))
     (setups (fst (snd (convert ext s f)))) =
     (if snd (snd (snd (convert_sync ext s f)))
      then [(sample_rate f, channel_layout f, format f, sample_rate f)] else [])"
    by (simp add: convert_setups)
  show "map rate (packet_caps_of (snd (snd (convert ext s f)))) =
     (if convert_call_fails ext s f then [] else [sample_rate f])"
    by (simp add: convert_packet_fields)
  have "sample_rate (processData_pts s frame) = sample_rate frame"
    by (simp add: processData_pts_def)
  then show "map (\<lambda>p. map rate (packet_caps_of p)) (emitted (snd (processData ext s frame))) =
     [if convert_call_fails ext s (processData_pts s frame) then [] else [sample_rate frame]]"
    by (simp add: processData_emitted convert_packet_fields)
qed

theorem sample_rate_kept_witness:
  "map (\<lambda>(ol, ofmt, orate, il, ifmt, irate). (orate, il, ifmt, irate))
     (setups (fst (snd (convert libs_example stream_example frame_example)))) =
     [(48000, AV_CH_LAYOUT_STEREO, AV_SAMPLE_FMT_S16, 48000)] \<and>
   map rate (packet_caps_of (snd (snd (convert libs_example stream_example frame_example)))) = [48000] \<and>
   map (\<lambda>p. map rate (packet_caps_of p))
     (emitted (snd (processData libs_example stream_example frame_example))) = [[48000]]"
proof -
  have f: "sample_rate frame_example = 48000" "channel_layout frame_example = AV_CH_LAYOUT_STEREO"
    "format frame_example = AV_SAMPLE_FMT_S16"
    by (simp_all add: frame_example_def)
  from sample_rate_kept [of libs_example stream_example frame_example frame_example]
  show ?thesis
    by (simp add: example_sync example_succeeds example_pts f)
qed

end
